theory Spec2Isabelle
  imports Main "HOL-Library.Sublist"
begin

section \<open>JavaScript values and strings\<close>

text \<open>
  The servers of the COMPAS Navigator keep their sessions as plain JavaScript objects and
  exchange JSON with the browser and with the completion API.  A value read from a parsed
  JSON text, a request body or a session field is a \<open>jsval\<close>.  An object literal is the
  list of its members in the order of the text; a member read takes the last occurrence of
  a key, as \<open>JSON.parse\<close> does.  Numbers are whole numbers: the code only stores them,
  tests them for truth and prints them.  Strings are lists of characters.
\<close>

datatype jsval =
    JUndefined
  | JNull
  | JBool bool
  | JNum int
  | JStr string
  | JArr "jsval list"
  | JObj "(string \<times> jsval) list"

text \<open>
  What a \<open>throw\<close> carries.  No \<open>catch\<close> block of the repository looks at the kind of the
  exception; the kinds are kept for reading the model against the source.
\<close>

datatype error = TypeError | SyntaxError | ApiError

text \<open>The truth value of a condition \<open>if (v)\<close>, \<open>v || d\<close>, \<open>v ? a : b\<close>.\<close>

fun truthy :: "jsval \<Rightarrow> bool" where
  "truthy JUndefined = False"
| "truthy JNull = False"
| "truthy (JBool b) = b"
| "truthy (JNum n) = (n \<noteq> 0)"
| "truthy (JStr s) = (s \<noteq> [])"
| "truthy (JArr xs) = True"
| "truthy (JObj fs) = True"

text \<open>
  \<open>v.k\<close> for a member name \<open>k\<close> that no built-in prototype defines (all the names the
  modelled code reads apart from \<open>length\<close>): reading from \<open>undefined\<close> or \<open>null\<close> throws,
  an object gives its own member or \<open>undefined\<close>, any other value gives \<open>undefined\<close>.
\<close>

fun get_field :: "jsval \<Rightarrow> string \<Rightarrow> error + jsval" where
  "get_field JUndefined k = Inl TypeError"
| "get_field JNull k = Inl TypeError"
| "get_field (JObj fs) k = Inr (case map_of (rev fs) k of Some v \<Rightarrow> v | None \<Rightarrow> JUndefined)"
| "get_field v k = Inr JUndefined"

text \<open>
  \<open>String.prototype.toLowerCase\<close> on the letters A to Z.  The trigger phrases of the keyword
  policy are ASCII and contain no letter that a character outside ASCII lowers to in a
  position where it could complete a match, so other characters are left as they are.
\<close>

definition lower_table :: "(char \<times> char) list" where
  "lower_table = zip ''ABCDEFGHIJKLMNOPQRSTUVWXYZ'' ''abcdefghijklmnopqrstuvwxyz''"

definition lower_char :: "char \<Rightarrow> char" where
  "lower_char c = (case map_of lower_table c of Some d \<Rightarrow> d | None \<Rightarrow> c)"

definition toLowerCase :: "string \<Rightarrow> string" where
  "toLowerCase s = map lower_char s"

text \<open>
  \<open>s.includes(t)\<close>: \<open>t\<close> occurs in \<open>s\<close> as a contiguous run, searched from the left.
\<close>

fun includes_js :: "string \<Rightarrow> string \<Rightarrow> bool" where
  "includes_js [] t = (t = [])"
| "includes_js (c # cs) t = (prefix t (c # cs) \<or> includes_js cs t)"

text \<open>Decimal digits of an array index, a counter or a whole number.\<close>

fun show_nat :: "nat \<Rightarrow> string" where
  "show_nat n =
     (if n < 10 then [''0123456789'' ! n]
      else show_nat (n div 10) @ [''0123456789'' ! (n mod 10)])"

definition show_int :: "int \<Rightarrow> string" where
  "show_int i = (if i < 0 then ''-'' @ show_nat (nat (- i)) else show_nat (nat i))"

section \<open>The six stages\<close>

text \<open>\<open>COMPAS_STAGES\<close>, the same object in all three servers.\<close>

definition CONTEXT_DISCOVERY :: string where
  "CONTEXT_DISCOVERY = ''context_discovery''"

definition OBJECTIVE_DEFINITION :: string where
  "OBJECTIVE_DEFINITION = ''objective_definition''"

definition METHOD_IDEATION :: string where
  "METHOD_IDEATION = ''method_ideation''"

definition METHOD_SELECTION :: string where
  "METHOD_SELECTION = ''method_selection''"

definition IMPLEMENTATION_PLAN :: string where
  "IMPLEMENTATION_PLAN = ''implementation_plan''"

definition COMPLETE :: string where
  "COMPLETE = ''complete''"

text \<open>
  The fixed order of the stages.  \<open>stage_rank\<close> is the position of a stage in it; a string
  that is no stage has rank 6.
\<close>

definition STAGE_ORDER :: "string list" where
  "STAGE_ORDER =
     [CONTEXT_DISCOVERY, OBJECTIVE_DEFINITION, METHOD_IDEATION, METHOD_SELECTION,
      IMPLEMENTATION_PLAN, COMPLETE]"

fun index_of :: "string list \<Rightarrow> string \<Rightarrow> nat" where
  "index_of [] x = 0"
| "index_of (y # ys) x = (if x = y then 0 else Suc (index_of ys x))"

definition stage_rank :: "string \<Rightarrow> nat" where
  "stage_rank st = index_of STAGE_ORDER st"

definition is_stage :: "string \<Rightarrow> bool" where
  "is_stage st = (st \<in> set STAGE_ORDER)"

text \<open>One step of a stage history: the stage stays, or moves to its immediate successor.\<close>

definition stays_or_next :: "string \<Rightarrow> string \<Rightarrow> bool" where
  "stays_or_next a b = (b = a \<or> (is_stage b \<and> stage_rank b = Suc (stage_rank a)))"

fun chain_ok :: "string list \<Rightarrow> bool" where
  "chain_ok (a # b # rest) = (stays_or_next a b \<and> chain_ok (b # rest))"
| "chain_ok _ = True"

section \<open>Sessions of the keyword servers\<close>

text \<open>
  \<open>src/unnamed/part_001\<close> is the Express server and \<open>src/netlify/functions/simple-api.js\<close>
  the serverless copy of it.  Both keep a \<open>SessionState\<close> with the same fields; the Express
  one adds \<open>uploadedFiles\<close>.  The field \<open>context\<close> of the source is \<open>session_context\<close>
  here.  A conversation entry is \<open>{role, content, timestamp}\<close>; the timestamp is the
  reading of \<open>new Date()\<close> in milliseconds, an input of the model.
\<close>

record message =
  role :: string
  content :: jsval
  timestamp :: nat

record artifact =
  artifact_id :: string
  filename :: string
  path :: string
  fsize :: nat
  mimetype :: string
  uploadedAt :: nat
  owner :: string
  sensitivity :: string
  source :: string

record session_context =
  facts :: "jsval list"
  artifacts :: "artifact list"

record SessionBase =
  sessionId :: string
  stage :: string
  conversationHistory :: "message list"

record SimpleSessionState = SessionBase +
  session_context :: session_context
  objective :: jsval
  methods :: "jsval list"
  chosenMethod :: jsval
  implementationPlan :: jsval
  performanceMeasures :: "jsval list"
  learningQuestions :: "jsval list"

record ServerSessionState = SimpleSessionState +
  uploadedFiles :: "artifact list"

text \<open>The constructors (\<open>simple-api.js\<close> lines 24 to 38, \<open>part_001\<close> lines 102 to 117).\<close>

definition new_SimpleSessionState :: "string \<Rightarrow> SimpleSessionState" where
  "new_SimpleSessionState sid =
     \<lparr> sessionId = sid, stage = CONTEXT_DISCOVERY, conversationHistory = [],
       session_context = \<lparr> facts = [], artifacts = [] \<rparr>, objective = JNull, methods = [],
       chosenMethod = JNull, implementationPlan = JNull, performanceMeasures = [],
       learningQuestions = [] \<rparr>"

definition new_ServerSessionState :: "string \<Rightarrow> ServerSessionState" where
  "new_ServerSessionState sid =
     \<lparr> sessionId = sid, stage = CONTEXT_DISCOVERY, conversationHistory = [],
       session_context = \<lparr> facts = [], artifacts = [] \<rparr>, objective = JNull, methods = [],
       chosenMethod = JNull, implementationPlan = JNull, performanceMeasures = [],
       learningQuestions = [], uploadedFiles = [] \<rparr>"

text \<open>\<open>addMessage(role, content)\<close>; \<open>now\<close> is what \<open>new Date()\<close> reads.\<close>

definition addMessage ::
  "'a SessionBase_scheme \<Rightarrow> string \<Rightarrow> jsval \<Rightarrow> nat \<Rightarrow> 'a SessionBase_scheme" where
  "addMessage session r c now =
     session\<lparr> conversationHistory :=
       conversationHistory session @ [\<lparr> role = r, content = c, timestamp = now \<rparr>] \<rparr>"

definition setStage :: "'a SessionBase_scheme \<Rightarrow> string \<Rightarrow> 'a SessionBase_scheme" where
  "setStage session st = session\<lparr> stage := st \<rparr>"

definition addArtifact :: "ServerSessionState \<Rightarrow> artifact \<Rightarrow> ServerSessionState" where
  "addArtifact session a =
     session\<lparr> session_context :=
       (session_context session)\<lparr> artifacts := artifacts (session_context session) @ [a] \<rparr> \<rparr>"

section \<open>The keyword policy\<close>

text \<open>
  \<open>updateSessionStage(session, response)\<close> of the Express server (\<open>part_001\<close> lines 263 to
  297).  \<open>response.toLowerCase()\<close> throws a TypeError when the response is not a string
  (the completion API may answer with a \<open>null\<close> content).  A stage that matches no
  \<open>case\<close> of the \<open>switch\<close> falls through.
\<close>

definition updateSessionStage ::
  "'a SessionBase_scheme \<Rightarrow> jsval \<Rightarrow> error + 'a SessionBase_scheme" where
  "updateSessionStage session response =
     (case response of
        JStr answer \<Rightarrow>
          (let lowerResponse = toLowerCase answer in
           if stage session = CONTEXT_DISCOVERY then
             (if includes_js lowerResponse ''yes, that's right''
                 \<or> includes_js lowerResponse ''correct''
              then Inr (setStage session OBJECTIVE_DEFINITION) else Inr session)
           else if stage session = OBJECTIVE_DEFINITION then
             (if includes_js lowerResponse ''root cause''
                 \<or> includes_js lowerResponse ''problem statement''
              then Inr (setStage session METHOD_IDEATION) else Inr session)
           else if stage session = METHOD_IDEATION then
             (if includes_js lowerResponse ''method''
                 \<and> (includes_js lowerResponse ''1.'' \<or> includes_js lowerResponse ''2.''
                      \<or> includes_js lowerResponse ''3.'')
              then Inr (setStage session METHOD_SELECTION) else Inr session)
           else if stage session = METHOD_SELECTION then
             (if includes_js lowerResponse ''implementation plan''
              then Inr (setStage session IMPLEMENTATION_PLAN) else Inr session)
           else if stage session = IMPLEMENTATION_PLAN then
             (if includes_js lowerResponse ''performance measures''
                 \<and> includes_js lowerResponse ''learning questions''
              then Inr (setStage session COMPLETE) else Inr session)
           else Inr session)
      | _ \<Rightarrow> Inl TypeError)"

text \<open>
  The same function in \<open>simple-api.js\<close> (lines 56 to 90), which assigns
  \<open>session.stage\<close> directly.
\<close>

definition updateSessionStage_simple ::
  "'a SessionBase_scheme \<Rightarrow> jsval \<Rightarrow> error + 'a SessionBase_scheme" where
  "updateSessionStage_simple session response =
     (case response of
        JStr answer \<Rightarrow>
          (let lowerResponse = toLowerCase answer in
           if stage session = CONTEXT_DISCOVERY then
             (if includes_js lowerResponse ''yes, that's right''
                 \<or> includes_js lowerResponse ''correct''
              then Inr (session\<lparr> stage := OBJECTIVE_DEFINITION \<rparr>) else Inr session)
           else if stage session = OBJECTIVE_DEFINITION then
             (if includes_js lowerResponse ''root cause''
                 \<or> includes_js lowerResponse ''problem statement''
              then Inr (session\<lparr> stage := METHOD_IDEATION \<rparr>) else Inr session)
           else if stage session = METHOD_IDEATION then
             (if includes_js lowerResponse ''method''
                 \<and> (includes_js lowerResponse ''1.'' \<or> includes_js lowerResponse ''2.''
                      \<or> includes_js lowerResponse ''3.'')
              then Inr (session\<lparr> stage := METHOD_SELECTION \<rparr>) else Inr session)
           else if stage session = METHOD_SELECTION then
             (if includes_js lowerResponse ''implementation plan''
              then Inr (session\<lparr> stage := IMPLEMENTATION_PLAN \<rparr>) else Inr session)
           else if stage session = IMPLEMENTATION_PLAN then
             (if includes_js lowerResponse ''performance measures''
                 \<and> includes_js lowerResponse ''learning questions''
              then Inr (session\<lparr> stage := COMPLETE \<rparr>) else Inr session)
           else Inr session)
      | _ \<Rightarrow> Inl TypeError)"

section \<open>Rendering values as text\<close>

fun collect_err :: "(error + 'a) list \<Rightarrow> error + 'a list" where
  "collect_err [] = Inr []"
| "collect_err (Inl e # rs) = Inl e"
| "collect_err (Inr x # rs) = (case collect_err rs of Inl e \<Rightarrow> Inl e | Inr xs \<Rightarrow> Inr (x # xs))"

fun join_js :: "string \<Rightarrow> string list \<Rightarrow> string" where
  "join_js sep [] = []"
| "join_js sep [x] = x"
| "join_js sep (x # y # ys) = x @ sep @ join_js sep (y # ys)"

definition has_own :: "(string \<times> jsval) list \<Rightarrow> string \<Rightarrow> bool" where
  "has_own fs k = (k \<in> set (map fst fs))"

text \<open>
  The string a template literal \<open>`${v}`\<close> puts in place of \<open>v\<close>.  An array is its elements
  joined by commas, \<open>undefined\<close> and \<open>null\<close> elements giving nothing.  An object parsed
  from JSON is \<open>[object Object]\<close>, unless it has a member of its own named \<open>toString\<close>:
  that member is no function, and neither it nor \<open>valueOf\<close> yields a primitive, so the
  conversion throws a TypeError.
\<close>

fun toString_js :: "jsval \<Rightarrow> error + string" where
  "toString_js JUndefined = Inr ''undefined''"
| "toString_js JNull = Inr ''null''"
| "toString_js (JBool b) = Inr (if b then ''true'' else ''false'')"
| "toString_js (JNum n) = Inr (show_int n)"
| "toString_js (JStr s) = Inr s"
| "toString_js (JArr xs) =
     (case collect_err
        (map (\<lambda>x. if x = JUndefined \<or> x = JNull then Inr [] else toString_js x) xs) of
        Inl e \<Rightarrow> Inl e
      | Inr strs \<Rightarrow> Inr (join_js '','' strs))"
| "toString_js (JObj fs) =
     (if has_own fs ''toString'' then Inl TypeError else Inr ''[object Object]'')"

text \<open>\<open>xs.join(sep)\<close> on an array of values.\<close>

definition array_join :: "string \<Rightarrow> jsval list \<Rightarrow> error + string" where
  "array_join sep xs =
     (case collect_err
        (map (\<lambda>x. if x = JUndefined \<or> x = JNull then Inr [] else toString_js x) xs) of
        Inl e \<Rightarrow> Inl e
      | Inr strs \<Rightarrow> Inr (join_js sep strs))"

text \<open>\<open>`${v || d}`\<close>: the text of \<open>v\<close> when it is truthy, the default otherwise.\<close>

definition or_default :: "jsval \<Rightarrow> string \<Rightarrow> error + string" where
  "or_default v d = (if truthy v then toString_js v else Inr d)"

text \<open>
  The pieces of a template in the order of the text: the first piece that throws ends the
  evaluation, otherwise the pieces are concatenated.
\<close>

definition concat_err :: "(error + string) list \<Rightarrow> error + string" where
  "concat_err ps = (case collect_err ps of Inl e \<Rightarrow> Inl e | Inr strs \<Rightarrow> Inr (concat strs))"

definition nl :: string where
  "nl = [CHR 0x0A]"

text \<open>The en dash and the bullet of the report templates, as their UTF-8 bytes.\<close>

definition en_dash :: string where
  "en_dash = [CHR 0xE2, CHR 0x80, CHR 0x93]"

definition bullet :: string where
  "bullet = [CHR 0xE2, CHR 0x80, CHR 0xA2]"

section \<open>Requests and replies\<close>

text \<open>
  The outcome of asking the completion API for the assistant's reply (\<open>part_001\<close> lines
  193 to 205, \<open>simple-api.js\<close> lines 168 to 180, \<open>test.js\<close> lines 425 to 437): building
  the system prompt and the message list, awaiting \<open>openai.chat.completions.create\<close> and
  reading \<open>choices[0].message.content\<close>.  \<open>CompletionThrew\<close> stands for an exception
  anywhere in these lines; the content of a reply is a string or \<open>null\<close>.
\<close>

datatype completion = CompletionThrew | CompletionContent jsval

record progressMetrics =
  startTime :: nat
  stageStartTimes :: "string \<rightharpoonup> nat"

text \<open>
  What a handler answers.  \<open>statusCode\<close> is the HTTP status.
  \<^item> \<open>NotFound\<close>: 404 \<open>{error: 'Session not found'}\<close>;
  \<^item> \<open>ChatReply\<close>: 200 \<open>{message, stage, sessionState: {artifacts, objective, methods}}\<close>;
  \<^item> \<open>ChatFailure\<close>: 500 \<open>{error: 'Failed to process message'}\<close> (Express);
  \<^item> \<open>InternalError\<close>: 500 \<open>{error: 'Internal server error', message}\<close> (the outer
    \<open>catch\<close> of the serverless handlers);
  \<^item> \<open>SomethingBroke\<close>: 500 \<open>Something broke!\<close> (the error middleware of Express);
  \<^item> \<open>UploadReply\<close>: 200 \<open>{artifact}\<close>;  \<open>ReportReply\<close>: 200 \<open>{report}\<close>;
  \<^item> \<open>AnalysedChatReply\<close>: 200 \<open>{message, stage, stageAnalysis, sessionState:
    {currentStageData, allStageData, progressMetrics}}\<close> (\<open>test.js\<close>).
\<close>

datatype response =
    NotFound
  | ChatReply jsval string "artifact list" jsval "jsval list"
  | ChatFailure
  | InternalError
  | SomethingBroke
  | UploadReply artifact
  | ReportReply string
  | AnalysedChatReply jsval string jsval "(string \<rightharpoonup> jsval) option"
      "string \<rightharpoonup> (string \<rightharpoonup> jsval)" progressMetrics

fun statusCode :: "response \<Rightarrow> nat" where
  "statusCode NotFound = 404"
| "statusCode (ChatReply m st arts obj ms) = 200"
| "statusCode ChatFailure = 500"
| "statusCode InternalError = 500"
| "statusCode SomethingBroke = 500"
| "statusCode (UploadReply a) = 200"
| "statusCode (ReportReply r) = 200"
| "statusCode (AnalysedChatReply m st an cur all pm) = 200"

section \<open>The Express server\<close>

text \<open>
  \<open>POST /api/sessions/:sessionId/chat\<close> (\<open>part_001\<close> lines 183 to 224) on the session
  that \<open>sessions.get\<close> found.  \<open>message\<close> is \<open>req.body.message\<close>; \<open>t1\<close> and \<open>t2\<close> are the
  clock readings of the two \<open>addMessage\<close> calls.  The user entry is appended before the
  \<open>try\<close> block; everything after it is inside.
\<close>

definition chat_server ::
  "ServerSessionState \<Rightarrow> jsval \<Rightarrow> nat \<Rightarrow> nat \<Rightarrow> completion \<Rightarrow> response \<times> ServerSessionState" where
  "chat_server session message t1 t2 c =
     (let s1 = addMessage session ''user'' message t1 in
      case c of
        CompletionThrew \<Rightarrow> (ChatFailure, s1)
      | CompletionContent assistantMessage \<Rightarrow>
          (let s2 = addMessage s1 ''assistant'' assistantMessage t2 in
           case updateSessionStage s2 assistantMessage of
             Inl e \<Rightarrow> (ChatFailure, s2)
           | Inr s3 \<Rightarrow>
               (ChatReply assistantMessage (stage s3) (artifacts (session_context s3))
                  (objective s3) (methods s3), s3)))"

text \<open>
  \<open>POST /api/sessions/:sessionId/upload\<close> (\<open>part_001\<close> lines 227 to 249) for a request
  that carries a file.  \<open>uuid\<close> is the identifier \<open>uuidv4()\<close> returns, the three options
  are the form fields \<open>owner\<close>, \<open>sensitivity\<close> and \<open>source\<close>.
\<close>

record upload_file =
  originalname :: string
  file_path :: string
  file_size :: nat
  file_mimetype :: string

definition field_or :: "string option \<Rightarrow> string \<Rightarrow> string" where
  "field_or v d = (case v of None \<Rightarrow> d | Some s \<Rightarrow> if s = [] then d else s)"

definition upload_server ::
  "ServerSessionState \<Rightarrow> string \<Rightarrow> upload_file \<Rightarrow> string option \<Rightarrow> string option \<Rightarrow>
   string option \<Rightarrow> nat \<Rightarrow> response \<times> ServerSessionState" where
  "upload_server session uuid file body_owner body_sensitivity body_source now =
     (let a = \<lparr> artifact_id = uuid, filename = originalname file, path = file_path file,
                fsize = file_size file, mimetype = file_mimetype file, uploadedAt = now,
                owner = field_or body_owner ''Unknown'',
                sensitivity = field_or body_sensitivity ''normal'',
                source = field_or body_source ''Manual upload'' \<rparr>;
          s1 = addArtifact session a;
          s2 = s1\<lparr> uploadedFiles := uploadedFiles s1 @ [a] \<rparr>
      in (UploadReply a, s2))"

text \<open>\<open>generateCOMPASReport(session)\<close> (\<open>part_001\<close> lines 300 to 349).\<close>

definition artifact_row :: "artifact \<Rightarrow> string" where
  "artifact_row a =
     ''| '' @ filename a @ '' | '' @ mimetype a @ '' | '' @ owner a @ '' | ''
       @ (if sensitivity a = ''high'' then ''Redact PII'' else ''None'')
       @ '' | '' @ source a @ '' |'' @ nl"

definition dash_line :: "jsval \<Rightarrow> error + string" where
  "dash_line v = (case toString_js v of Inl e \<Rightarrow> Inl e | Inr t \<Rightarrow> Inr (''- '' @ t @ nl))"

definition generateCOMPASReport :: "'a SimpleSessionState_scheme \<Rightarrow> error + string" where
  "generateCOMPASReport session =
     concat_err
       ([ Inr ''## COMPAS Report '', Inr en_dash, Inr '' '',
          or_default (objective session) ''Nonprofit Challenge'', Inr (nl @ nl),
          Inr (''### 0. Data / Context to Supply AI'' @ nl),
          Inr (''| Artifact | Current format | Owner | Prep needed | Upload method |'' @ nl),
          Inr (''|----------|----------------|-------|-------------|---------------|'' @ nl) ]
        @ map (\<lambda>a. Inr (artifact_row a)) (artifacts (session_context session))
        @ [ Inr (nl @ ''### 1. Context (summary)'' @ nl) ]
        @ map dash_line (facts (session_context session))
        @ [ Inr (nl @ ''### 2. Objective (root problem)'' @ nl),
            Inr ''- '', or_default (objective session) ''To be defined'', Inr nl,
            Inr (nl @ ''### 3. Chosen Method(s)'' @ nl),
            Inr ''- '', or_default (chosenMethod session) ''To be selected'', Inr nl,
            Inr (nl @ ''### 4. Implementation Plan'' @ nl),
            Inr (if truthy (implementationPlan session)
                 then ''| Step | Owner | When | Notes |'' @ nl
                      @ ''|------|-------|------|-------|'' @ nl
                 else []),
            Inr (nl @ ''### 5. Performance Measures'' @ nl) ]
        @ map dash_line (performanceMeasures session)
        @ [ Inr (nl @ ''### 6. Learning Questions'' @ nl) ]
        @ map dash_line (learningQuestions session))"

text \<open>
  \<open>GET /api/sessions/:sessionId/report\<close> (\<open>part_001\<close> lines 252 to 260).  The handler is
  synchronous: an exception reaches the error middleware.
\<close>

definition report_server :: "ServerSessionState \<Rightarrow> response \<times> ServerSessionState" where
  "report_server session =
     (case generateCOMPASReport session of
        Inl e \<Rightarrow> (SomethingBroke, session)
      | Inr report \<Rightarrow> (ReportReply report, session))"

text \<open>
  The requests of the Express server that reach a session, and the server as a function
  on the session table: \<open>sessions.get\<close> first, 404 for an unknown identifier.
\<close>

datatype server_request =
    ServerChat jsval nat nat completion
  | ServerUpload string upload_file "string option" "string option" "string option" nat
  | ServerReport

fun server_step :: "ServerSessionState \<Rightarrow> server_request \<Rightarrow> response \<times> ServerSessionState" where
  "server_step session (ServerChat message t1 t2 c) = chat_server session message t1 t2 c"
| "server_step session (ServerUpload uuid file o1 o2 o3 now) =
     upload_server session uuid file o1 o2 o3 now"
| "server_step session ServerReport = report_server session"

definition server_handle ::
  "(string \<rightharpoonup> ServerSessionState) \<Rightarrow> string \<Rightarrow> server_request \<Rightarrow>
   response \<times> (string \<rightharpoonup> ServerSessionState)" where
  "server_handle sessions sid req =
     (case sessions sid of
        None \<Rightarrow> (NotFound, sessions)
      | Some session \<Rightarrow>
          (case server_step session req of (res, session') \<Rightarrow> (res, sessions(sid \<mapsto> session'))))"

text \<open>The states a session goes through under a list of requests, the first state included.\<close>

fun server_run :: "ServerSessionState \<Rightarrow> server_request list \<Rightarrow> ServerSessionState list" where
  "server_run session [] = [session]"
| "server_run session (req # reqs) = session # server_run (snd (server_step session req)) reqs"

section \<open>The serverless keyword handler\<close>

text \<open>
  The chat branch of \<open>exports.handler\<close> in \<open>simple-api.js\<close> (lines 153 to 199) on the
  session found.  \<open>body\<close> is \<open>JSON.parse(event.body)\<close>, \<open>None\<close> when it throws.  The whole
  branch is inside the handler's \<open>try\<close>.
\<close>

definition chat_simple ::
  "SimpleSessionState \<Rightarrow> jsval option \<Rightarrow> nat \<Rightarrow> nat \<Rightarrow> completion \<Rightarrow>
   response \<times> SimpleSessionState" where
  "chat_simple session body t1 t2 c =
     (case body of
        None \<Rightarrow> (InternalError, session)
      | Some b \<Rightarrow>
          (case get_field b ''message'' of
             Inl e \<Rightarrow> (InternalError, session)
           | Inr message \<Rightarrow>
               (let s1 = addMessage session ''user'' message t1 in
                case c of
                  CompletionThrew \<Rightarrow> (InternalError, s1)
                | CompletionContent assistantMessage \<Rightarrow>
                    (let s2 = addMessage s1 ''assistant'' assistantMessage t2 in
                     case updateSessionStage_simple s2 assistantMessage of
                       Inl e \<Rightarrow> (InternalError, s2)
                     | Inr s3 \<Rightarrow>
                         (ChatReply assistantMessage (stage s3) (artifacts (session_context s3))
                            (objective s3) (methods s3), s3)))))"

text \<open>The report branch (lines 202 to 221): one template, \<open>facts.join('\n- ')\<close> inside.\<close>

definition report_simple :: "SimpleSessionState \<Rightarrow> response \<times> SimpleSessionState" where
  "report_simple session =
     (case concat_err
        [ Inr (''# COMPAS Report'' @ nl @ nl @ ''## Context'' @ nl),
          array_join (nl @ ''- '') (facts (session_context session)),
          Inr (nl @ nl @ ''## Objective'' @ nl),
          or_default (objective session) ''To be defined'',
          Inr (nl @ nl @ ''## Implementation Plan'' @ nl
               @ ''Detailed plan to be developed based on conversation.'') ] of
        Inl e \<Rightarrow> (InternalError, session)
      | Inr report \<Rightarrow> (ReportReply report, session))"

datatype simple_request =
    SimpleChat "jsval option" nat nat completion
  | SimpleReport

fun simple_step :: "SimpleSessionState \<Rightarrow> simple_request \<Rightarrow> response \<times> SimpleSessionState" where
  "simple_step session (SimpleChat body t1 t2 c) = chat_simple session body t1 t2 c"
| "simple_step session SimpleReport = report_simple session"

fun simple_run :: "SimpleSessionState \<Rightarrow> simple_request list \<Rightarrow> SimpleSessionState list" where
  "simple_run session [] = [session]"
| "simple_run session (req # reqs) = session # simple_run (snd (simple_step session req)) reqs"

section \<open>The session of the analysing server\<close>

text \<open>
  The second module of \<open>src/netlify/functions/test.js\<close> (from line 45 on) is the serverless
  handler that asks the completion API a second time, to analyse each exchange.  Its
  \<open>SessionState\<close> keeps one record per stage in \<open>stageData\<close>.  A record is a table from
  member names to values, and \<open>stageData\<close> a table from stage names to records; a name
  that is not in a table reads as \<open>undefined\<close>.  Members inherited from
  \<open>Object.prototype\<close> are outside the model, and \<open>__proto__\<close> is a name like any other.
\<close>

record criteria =
  required :: "string list"
  minimumMethods :: "nat option"
  progressTrigger :: string
  nextStage :: "string option"
  timeEstimate :: string

text \<open>\<open>STAGE_CRITERIA\<close> (lines 69 to 107); \<open>nextStage: null\<close> is \<open>None\<close>.\<close>

definition STAGE_CRITERIA :: "string \<rightharpoonup> criteria" where
  "STAGE_CRITERIA = map_of
     [ (CONTEXT_DISCOVERY,
          \<lparr> required = [''situationDescription'', ''stakeholders'', ''constraints''],
            minimumMethods = None,
            progressTrigger = ''User confirms the restated situation is accurate'',
            nextStage = Some OBJECTIVE_DEFINITION, timeEstimate = ''5-10 minutes'' \<rparr>),
       (OBJECTIVE_DEFINITION,
          \<lparr> required = [''rootProblem'', ''problemStatement''],
            minimumMethods = None,
            progressTrigger = ''Clear problem statement identified (not solution)'',
            nextStage = Some METHOD_IDEATION, timeEstimate = ''3-5 minutes'' \<rparr>),
       (METHOD_IDEATION,
          \<lparr> required = [''methods''],
            minimumMethods = Some 2,
            progressTrigger = ''At least 2 distinct methods proposed with rationales'',
            nextStage = Some METHOD_SELECTION, timeEstimate = ''5-7 minutes'' \<rparr>),
       (METHOD_SELECTION,
          \<lparr> required = [''chosenMethod'', ''methodRationale''],
            minimumMethods = None,
            progressTrigger = ''User selects a method or accepts recommendation'',
            nextStage = Some IMPLEMENTATION_PLAN, timeEstimate = ''2-3 minutes'' \<rparr>),
       (IMPLEMENTATION_PLAN,
          \<lparr> required = [''implementationSteps'', ''timeline'', ''performanceMeasures''],
            minimumMethods = None,
            progressTrigger = ''Complete implementation plan with steps, timeline, and metrics'',
            nextStage = Some COMPLETE, timeEstimate = ''5-7 minutes'' \<rparr>),
       (COMPLETE,
          \<lparr> required = [''finalReport''],
            minimumMethods = None,
            progressTrigger = ''Report generated and approved'',
            nextStage = None, timeEstimate = ''2-3 minutes'' \<rparr>) ]"

record SessionState = SessionBase +
  stageData :: "string \<rightharpoonup> (string \<rightharpoonup> jsval)"
  progressMetrics :: progressMetrics

text \<open>
  The constructor (lines 111 to 155); \<open>now1\<close> and \<open>now2\<close> are its two readings of the clock.
\<close>

definition initial_stageData :: "string \<rightharpoonup> (string \<rightharpoonup> jsval)" where
  "initial_stageData = map_of
     [ (CONTEXT_DISCOVERY, map_of
          [ (''situationDescription'', JStr []), (''stakeholders'', JArr []),
            (''constraints'', JArr []), (''artifacts'', JArr []),
            (''completed'', JBool False) ]),
       (OBJECTIVE_DEFINITION, map_of
          [ (''rootProblem'', JStr []), (''problemStatement'', JStr []),
            (''completed'', JBool False) ]),
       (METHOD_IDEATION, map_of
          [ (''methods'', JArr []), (''completed'', JBool False) ]),
       (METHOD_SELECTION, map_of
          [ (''chosenMethod'', JNull), (''methodRationale'', JStr []),
            (''completed'', JBool False) ]),
       (IMPLEMENTATION_PLAN, map_of
          [ (''implementationSteps'', JArr []), (''timeline'', JStr []),
            (''performanceMeasures'', JArr []), (''learningQuestions'', JArr []),
            (''completed'', JBool False) ]),
       (COMPLETE, map_of
          [ (''finalReport'', JStr []), (''completed'', JBool False) ]) ]"

definition new_SessionState :: "string \<Rightarrow> nat \<Rightarrow> nat \<Rightarrow> SessionState" where
  "new_SessionState sid now1 now2 =
     \<lparr> sessionId = sid, stage = CONTEXT_DISCOVERY, conversationHistory = [],
       stageData = initial_stageData,
       progressMetrics =
         \<lparr> startTime = now1, stageStartTimes = [CONTEXT_DISCOVERY \<mapsto> now2] \<rparr> \<rparr>"

text \<open>
  The own enumerable members \<open>Object.assign\<close> copies from a source: the members of an
  object, the elements of an array and the characters of a string under their indices,
  nothing from any other value.
\<close>

fun own_entries :: "jsval \<Rightarrow> (string \<times> jsval) list" where
  "own_entries (JObj fs) = fs"
| "own_entries (JArr xs) = zip (map show_nat [0..<length xs]) xs"
| "own_entries (JStr s) = zip (map show_nat [0..<length s]) (map (\<lambda>c. JStr [c]) s)"
| "own_entries v = []"

definition object_assign :: "(string \<rightharpoonup> jsval) \<Rightarrow> jsval \<Rightarrow> (string \<rightharpoonup> jsval)" where
  "object_assign target src = fold (\<lambda>(k, v) m. m(k \<mapsto> v)) (own_entries src) target"

text \<open>\<open>updateStageData(stage, data)\<close> (lines 161 to 165).\<close>

definition updateStageData :: "SessionState \<Rightarrow> string \<Rightarrow> jsval \<Rightarrow> SessionState" where
  "updateStageData session st data =
     (case stageData session st of
        None \<Rightarrow> session
      | Some rec \<Rightarrow>
          session\<lparr> stageData := (stageData session)(st \<mapsto> object_assign rec data) \<rparr>)"

definition getCurrentStageData :: "SessionState \<Rightarrow> (string \<rightharpoonup> jsval) option" where
  "getCurrentStageData session = stageData session (stage session)"

section \<open>The assisted policy\<close>

text \<open>
  The analysis prompt (lines 282 to 304) is built before the \<open>try\<close> block.  Of its text
  only the two interpolated values can throw; the JSON renderings of the session cannot.
\<close>

definition analysisPrompt :: "SessionState \<Rightarrow> jsval \<Rightarrow> jsval \<Rightarrow> error + string \<times> string" where
  "analysisPrompt session userMessage assistantResponse =
     (case toString_js userMessage of
        Inl e \<Rightarrow> Inl e
      | Inr u \<Rightarrow>
          (case toString_js assistantResponse of
             Inl e \<Rightarrow> Inl e
           | Inr a \<Rightarrow> Inr (u, a)))"

text \<open>
  The outcome of lines 307 to 314: the second call of the completion API and
  \<open>JSON.parse\<close> of its content.  \<open>AnalysisThrew\<close> is a failed call, \<open>AnalysisNotJSON\<close> a
  content that does not parse, \<open>AnalysisParsed\<close> the parsed value.
\<close>

datatype analysis_reply = AnalysisThrew | AnalysisNotJSON | AnalysisParsed jsval

text \<open>The object the \<open>catch\<close> block returns (lines 339 to 345).\<close>

definition analysis_error :: jsval where
  "analysis_error =
     JObj [ (''shouldProgress'', JBool False), (''progressReason'', JStr ''Analysis error''),
            (''extractedData'', JObj []), (''completionPercentage'', JNum 0),
            (''missingInformation'', JArr []) ]"

text \<open>
  \<open>analyzeAndProgressStage(session, userMessage, assistantResponse)\<close> (lines 281 to 347);
  \<open>now\<close> is the clock reading of line 330.  The result is the value returned and the
  session as the call leaves it; \<open>Inl\<close> is an exception that leaves the function, which
  only building the prompt can raise.  Inside the \<open>try\<close> block every exception ends in
  the \<open>catch\<close> block, with the session as it is at that point: reading a member of
  \<open>null\<close>, \<open>STAGE_CRITERIA[session.stage]\<close> being \<open>undefined\<close>, and the text of
  \<open>analysis.progressReason\<close> in the log line (line 332).  \<open>advance\<close> is lines 326 to 330,
  \<open>progress\<close> lines 322 to 336.
\<close>

definition advance :: "SessionState \<Rightarrow> string \<Rightarrow> nat \<Rightarrow> SessionState" where
  "advance session next now =
     (let s1 = updateStageData session (stage session) (JObj [(''completed'', JBool True)]) in
      s1\<lparr> stage := next,
          progressMetrics := (progressMetrics s1)
            \<lparr> stageStartTimes := (stageStartTimes (progressMetrics s1))(next \<mapsto> now) \<rparr> \<rparr>)"

definition progress :: "SessionState \<Rightarrow> jsval \<Rightarrow> nat \<Rightarrow> jsval \<times> SessionState" where
  "progress session analysis now =
     (case get_field analysis ''shouldProgress'' of
        Inl e \<Rightarrow> (analysis_error, session)
      | Inr shouldProgress \<Rightarrow>
          if truthy shouldProgress then
            (case STAGE_CRITERIA (stage session) of
               None \<Rightarrow> (analysis_error, session)
             | Some crit \<Rightarrow>
                 (case nextStage crit of
                    None \<Rightarrow> (analysis, session)
                  | Some next \<Rightarrow>
                      (let s2 = advance session next now in
                       case get_field analysis ''progressReason'' of
                         Inl e \<Rightarrow> (analysis_error, s2)
                       | Inr reason \<Rightarrow>
                           (case toString_js reason of
                              Inl e \<Rightarrow> (analysis_error, s2)
                            | Inr line \<Rightarrow> (analysis, s2)))))
          else (analysis, session))"

definition analyzeAndProgressStage ::
  "SessionState \<Rightarrow> jsval \<Rightarrow> jsval \<Rightarrow> analysis_reply \<Rightarrow> nat \<Rightarrow> error + jsval \<times> SessionState" where
  "analyzeAndProgressStage session userMessage assistantResponse reply now =
     (case analysisPrompt session userMessage assistantResponse of
        Inl e \<Rightarrow> Inl e
      | Inr prompt \<Rightarrow>
          (case reply of
             AnalysisThrew \<Rightarrow> Inr (analysis_error, session)
           | AnalysisNotJSON \<Rightarrow> Inr (analysis_error, session)
           | AnalysisParsed analysis \<Rightarrow>
               (case get_field analysis ''extractedData'' of
                  Inl e \<Rightarrow> Inr (analysis_error, session)
                | Inr extractedData \<Rightarrow>
                    (let s1 = (if truthy extractedData
                               then updateStageData session (stage session) extractedData
                               else session)
                     in Inr (progress s1 analysis now)))))"

text \<open>
  The chat branch of the handler (lines 410 to 457) on the session found; the whole branch
  is inside the handler's \<open>try\<close>.  \<open>t1\<close>, \<open>t2\<close> and \<open>t3\<close> are the clock readings of the two
  \<open>addMessage\<close> calls and of the stage advance.
\<close>

definition chat_analysed ::
  "SessionState \<Rightarrow> jsval option \<Rightarrow> nat \<Rightarrow> nat \<Rightarrow> nat \<Rightarrow> completion \<Rightarrow> analysis_reply \<Rightarrow>
   response \<times> SessionState" where
  "chat_analysed session body t1 t2 t3 c reply =
     (case body of
        None \<Rightarrow> (InternalError, session)
      | Some b \<Rightarrow>
          (case get_field b ''message'' of
             Inl e \<Rightarrow> (InternalError, session)
           | Inr message \<Rightarrow>
               (let s1 = addMessage session ''user'' message t1 in
                case c of
                  CompletionThrew \<Rightarrow> (InternalError, s1)
                | CompletionContent assistantMessage \<Rightarrow>
                    (let s2 = addMessage s1 ''assistant'' assistantMessage t2 in
                     case analyzeAndProgressStage s2 message assistantMessage reply t3 of
                       Inl e \<Rightarrow> (InternalError, s2)
                     | Inr (analysis, s3) \<Rightarrow>
                         (AnalysedChatReply assistantMessage (stage s3) analysis
                            (getCurrentStageData s3) (stageData s3) (progressMetrics s3), s3)))))"

section \<open>The report of the analysing server\<close>

text \<open>
  What the report takes from the JavaScript runtime as given: the date format of the
  locale (\<open>toLocaleDateString\<close> of a clock reading), and whether a string converts to a
  number greater than 0.
\<close>

record runtime =
  toLocaleDateString :: "nat \<Rightarrow> string"
  string_positive :: "string \<Rightarrow> bool"

text \<open>
  \<open>v.length\<close>: the length of a string or an array (only compared with 0 here), the
  member of an object, \<open>undefined\<close> on a number or a boolean, a TypeError on \<open>undefined\<close>
  and \<open>null\<close>.
\<close>

fun js_length :: "jsval \<Rightarrow> error + jsval" where
  "js_length JUndefined = Inl TypeError"
| "js_length JNull = Inl TypeError"
| "js_length (JStr s) = Inr (JNum (int (length s)))"
| "js_length (JArr xs) = Inr (JNum (int (length xs)))"
| "js_length (JObj fs) = Inr (case map_of (rev fs) ''length'' of Some v \<Rightarrow> v | None \<Rightarrow> JUndefined)"
| "js_length v = Inr JUndefined"

text \<open>
  \<open>v > 0\<close>: \<open>undefined\<close> and an object compare as NaN, \<open>null\<close> as 0, \<open>true\<close> as 1, a string
  and an array (through its text) as the number they convert to.
\<close>

fun js_gt0 :: "runtime \<Rightarrow> jsval \<Rightarrow> error + bool" where
  "js_gt0 rt JUndefined = Inr False"
| "js_gt0 rt JNull = Inr False"
| "js_gt0 rt (JBool b) = Inr b"
| "js_gt0 rt (JNum n) = Inr (0 < n)"
| "js_gt0 rt (JStr s) = Inr (string_positive rt s)"
| "js_gt0 rt (JArr xs) =
     (case toString_js (JArr xs) of Inl e \<Rightarrow> Inl e | Inr s \<Rightarrow> Inr (string_positive rt s))"
| "js_gt0 rt (JObj fs) = (if has_own fs ''toString'' then Inl TypeError else Inr False)"

definition nonempty :: "runtime \<Rightarrow> jsval \<Rightarrow> error + bool" where
  "nonempty rt v = (case js_length v of Inl e \<Rightarrow> Inl e | Inr len \<Rightarrow> js_gt0 rt len)"

text \<open>
  \<open>v.map((x, i) => item).join('\n')\<close>: only an array has \<open>map\<close>; on any other value
  the call throws a TypeError.
\<close>

definition map_join :: "jsval \<Rightarrow> (nat \<Rightarrow> jsval \<Rightarrow> error + string) \<Rightarrow> error + string" where
  "map_join v item =
     (case v of
        JArr xs \<Rightarrow>
          (case collect_err (map (\<lambda>(i, x). item i x) (enumerate 0 xs)) of
             Inl e \<Rightarrow> Inl e
           | Inr strs \<Rightarrow> Inr (join_js nl strs))
      | _ \<Rightarrow> Inl TypeError)"

definition if_err :: "error + bool \<Rightarrow> error + string \<Rightarrow> error + string \<Rightarrow> error + string" where
  "if_err c a b = (case c of Inl e \<Rightarrow> Inl e | Inr t \<Rightarrow> if t then a else b)"

text \<open>\<open>record.k\<close> on a stage record, and \<open>`${x.k || d}`\<close> on an element \<open>x\<close>.\<close>

definition record_get :: "(string \<rightharpoonup> jsval) \<Rightarrow> string \<Rightarrow> jsval" where
  "record_get rec k = (case rec k of None \<Rightarrow> JUndefined | Some v \<Rightarrow> v)"

definition field_or_default :: "jsval \<Rightarrow> string \<Rightarrow> string \<Rightarrow> error + string" where
  "field_or_default x k d =
     (case get_field x k of Inl e \<Rightarrow> Inl e | Inr v \<Rightarrow> or_default v d)"

definition field_text :: "jsval \<Rightarrow> string \<Rightarrow> error + string" where
  "field_text x k = (case get_field x k of Inl e \<Rightarrow> Inl e | Inr v \<Rightarrow> toString_js v)"

text \<open>\<open>Math.round((now - startTime) / 60000)\<close> on whole milliseconds.\<close>

definition session_minutes :: "nat \<Rightarrow> nat \<Rightarrow> int" where
  "session_minutes now start = (int now - int start + 30000) div 60000"

text \<open>The arrow functions of the template (lines 595 to 660).\<close>

definition bullet_item :: "nat \<Rightarrow> jsval \<Rightarrow> error + string" where
  "bullet_item i x = concat_err [Inr bullet, Inr '' '', toString_js x]"

definition artifact_item :: "nat \<Rightarrow> jsval \<Rightarrow> error + string" where
  "artifact_item i a =
     concat_err [Inr bullet, Inr '' '', field_text a ''filename'', Inr '' ('',
                 field_text a ''owner'', Inr '')'']"

definition method_item :: "nat \<Rightarrow> jsval \<Rightarrow> error + string" where
  "method_item i m =
     concat_err
       [ Inr (nl @ ''### Method '' @ show_nat (i + 1) @ '': ''),
         field_or_default m ''name'' (''Option '' @ show_nat (i + 1)), Inr nl,
         Inr ''**Approach:** '', field_or_default m ''description'' ''Not provided'', Inr nl,
         Inr ''**Rationale:** '', field_or_default m ''rationale'' ''Not provided'', Inr nl,
         Inr ''**Implementation Complexity:** '',
         field_or_default m ''complexity'' ''Not assessed'', Inr nl ]"

definition step_item :: "nat \<Rightarrow> jsval \<Rightarrow> error + string" where
  "step_item i step =
     concat_err
       [ Inr (nl @ show_nat (i + 1) @ ''. **''),
         field_or_default step ''title'' (''Step '' @ show_nat (i + 1)), Inr (''**'' @ nl),
         Inr ''   - **Owner:** '', field_or_default step ''owner'' ''Not assigned'', Inr nl,
         Inr ''   - **Timeline:** '', field_or_default step ''timeline'' ''Not specified'', Inr nl,
         Inr ''   - **Description:** '',
         field_or_default step ''description'' ''Not provided'', Inr nl,
         Inr ''   - **Resources:** '',
         field_or_default step ''resources'' ''Not specified'', Inr nl ]"

definition measure_item :: "nat \<Rightarrow> jsval \<Rightarrow> error + string" where
  "measure_item i m =
     concat_err
       [ Inr (nl @ show_nat (i + 1) @ ''. **''),
         field_or_default m ''metric'' (''Metric '' @ show_nat (i + 1)),
         Inr (''**'' @ nl),
         Inr ''   - **Target:** '', field_or_default m ''target'' ''Not specified'', Inr nl,
         Inr ''   - **Baseline:** '',
         field_or_default m ''baseline'' ''Not specified'', Inr nl,
         Inr ''   - **Collection Method:** '',
         field_or_default m ''collection'' ''Not specified'', Inr nl,
         Inr ''   - **Frequency:** '',
         field_or_default m ''frequency'' ''Not specified'', Inr nl ]"

text \<open>
  \<open>generateComprehensiveReport(session)\<close> (lines 574 to 675).  \<open>now1\<close> and \<open>now2\<close> are the
  two readings of the clock in the second line of the report.  Reading a member of a stage
  record that \<open>stageData\<close> does not hold throws.
\<close>

definition report_text ::
  "runtime \<Rightarrow> nat \<Rightarrow> nat \<Rightarrow> nat \<Rightarrow> (string \<rightharpoonup> jsval) \<Rightarrow> (string \<rightharpoonup> jsval) \<Rightarrow>
   (string \<rightharpoonup> jsval) \<Rightarrow> (string \<rightharpoonup> jsval) \<Rightarrow> (string \<rightharpoonup> jsval) \<Rightarrow> error + string" where
  "report_text rt now1 now2 start contextData objectiveData methodData selectionData planData =
     concat_err
       [ Inr ''# COMPAS Report '', Inr en_dash, Inr '' '',
         or_default (record_get contextData ''situationDescription'') ''Challenge Analysis'',
         Inr (nl @ nl),
         Inr (''*Generated on '' @ toLocaleDateString rt now1 @ '' | Total Session Time: ''
              @ show_int (session_minutes now2 start) @ '' minutes*'' @ nl @ nl),
         Inr (''## Executive Summary'' @ nl @ nl),
         Inr (''This report provides a structured analysis and actionable solution for ''
              @ ''the identified nonprofit challenge using the COMPAS (Context, Objective, ''
              @ ''Method, Plan, Assessment) framework.'' @ nl @ nl),
         Inr (''## 1. Context Discovery'' @ nl @ nl),
         Inr (''**Challenge Description:**'' @ nl),
         or_default (record_get contextData ''situationDescription'') ''Not provided'',
         Inr (nl @ nl @ ''**Key Stakeholders:**'' @ nl),
         if_err (nonempty rt (record_get contextData ''stakeholders''))
           (map_join (record_get contextData ''stakeholders'') bullet_item)
           (Inr (bullet @ '' Not specified'')),
         Inr (nl @ nl @ ''**Constraints & Limitations:**'' @ nl),
         if_err (nonempty rt (record_get contextData ''constraints''))
           (map_join (record_get contextData ''constraints'') bullet_item)
           (Inr (bullet @ '' Not specified'')),
         Inr (nl @ nl @ ''**Supporting Artifacts:**'' @ nl),
         if_err (nonempty rt (record_get contextData ''artifacts''))
           (map_join (record_get contextData ''artifacts'') artifact_item)
           (Inr (bullet @ '' No artifacts uploaded'')),
         Inr (nl @ nl @ ''## 2. Objective Definition'' @ nl @ nl),
         Inr (''**Root Problem Identified:**'' @ nl),
         or_default (record_get objectiveData ''rootProblem'') ''Not defined'',
         Inr (nl @ nl @ ''**Problem Statement:**'' @ nl),
         or_default (record_get objectiveData ''problemStatement'') ''Not provided'',
         Inr (nl @ nl @ ''## 3. Method Analysis'' @ nl @ nl),
         Inr (''**Proposed Solutions:**'' @ nl),
         if_err (nonempty rt (record_get methodData ''methods''))
           (map_join (record_get methodData ''methods'') method_item)
           (Inr ''No methods proposed''),
         Inr (nl @ nl @ ''**Selected Method:**'' @ nl),
         (if truthy (record_get selectionData ''chosenMethod'')
          then concat_err
                 [ Inr (nl @ ''**Chosen Approach:** ''),
                   field_or_default (record_get selectionData ''chosenMethod'') ''name''
                     ''Selected method'',
                   Inr (nl @ ''**Selection Rationale:** ''),
                   or_default (record_get selectionData ''methodRationale'') ''Not provided'',
                   Inr nl ]
          else Inr ''No method selected yet''),
         Inr (nl @ nl @ ''## 4. Implementation Plan'' @ nl @ nl),
         if_err (nonempty rt (record_get planData ''implementationSteps''))
           (concat_err
              [ Inr (nl @ ''**Action Steps:**'' @ nl),
                map_join (record_get planData ''implementationSteps'') step_item,
                Inr (nl @ nl @ ''**Overall Timeline:**'' @ nl),
                or_default (record_get planData ''timeline'') ''Not provided'',
                Inr nl ])
           (Inr ''Implementation plan not yet developed''),
         Inr (nl @ nl @ ''## 5. Performance Measures & Success Metrics'' @ nl @ nl),
         if_err (nonempty rt (record_get planData ''performanceMeasures''))
           (concat_err
              [ Inr (nl @ ''**Key Metrics:**'' @ nl),
                map_join (record_get planData ''performanceMeasures'') measure_item,
                Inr nl ])
           (Inr ''Success metrics not yet defined''),
         Inr (nl @ nl @ ''## 6. Learning Questions & Iteration Plan'' @ nl @ nl),
         if_err (nonempty rt (record_get planData ''learningQuestions''))
           (concat_err
              [ Inr (nl @ ''**Key Learning Questions:**'' @ nl),
                map_join (record_get planData ''learningQuestions'') bullet_item,
                Inr nl ])
           (Inr ''Learning questions not yet defined''),
         Inr (nl @ nl @ ''**Next Steps for Implementation:**'' @ nl),
         Inr (''1. Review and validate this plan with key stakeholders'' @ nl),
         Inr (''2. Secure necessary resources and approvals'' @ nl),
         Inr (''3. Begin with the first implementation step'' @ nl),
         Inr (''4. Establish measurement and monitoring systems'' @ nl),
         Inr (''5. Schedule regular check-ins to assess progress'' @ nl @ nl),
         Inr (''---'' @ nl @ nl),
         Inr (''*This report was generated using the COMPAS Navigator framework, designed ''
              @ ''specifically for nonprofit organizations to transform challenges into ''
              @ ''actionable solutions.*'') ]"

definition generateComprehensiveReport ::
  "runtime \<Rightarrow> nat \<Rightarrow> nat \<Rightarrow> SessionState \<Rightarrow> error + string" where
  "generateComprehensiveReport rt now1 now2 session =
     (case (stageData session CONTEXT_DISCOVERY, stageData session OBJECTIVE_DEFINITION,
            stageData session METHOD_IDEATION, stageData session METHOD_SELECTION,
            stageData session IMPLEMENTATION_PLAN) of
        (Some contextData, Some objectiveData, Some methodData, Some selectionData,
         Some planData) \<Rightarrow>
          report_text rt now1 now2 (startTime (progressMetrics session))
            contextData objectiveData methodData selectionData planData
      | _ \<Rightarrow> Inl TypeError)"

text \<open>The report branch of the handler (lines 460 to 479), inside the handler's \<open>try\<close>.\<close>

definition report_analysed ::
  "runtime \<Rightarrow> nat \<Rightarrow> nat \<Rightarrow> SessionState \<Rightarrow> response \<times> SessionState" where
  "report_analysed rt now1 now2 session =
     (case generateComprehensiveReport rt now1 now2 session of
        Inl e \<Rightarrow> (InternalError, session)
      | Inr report \<Rightarrow> (ReportReply report, session))"

text \<open>The requests of the analysing server that reach a session.\<close>

datatype analysed_request =
    AnalysedChat "jsval option" nat nat nat completion analysis_reply
  | AnalysedReport runtime nat nat

fun analysed_step :: "SessionState \<Rightarrow> analysed_request \<Rightarrow> response \<times> SessionState" where
  "analysed_step session (AnalysedChat body t1 t2 t3 c reply) =
     chat_analysed session body t1 t2 t3 c reply"
| "analysed_step session (AnalysedReport rt now1 now2) = report_analysed rt now1 now2 session"

fun analysed_run :: "SessionState \<Rightarrow> analysed_request list \<Rightarrow> SessionState list" where
  "analysed_run session [] = [session]"
| "analysed_run session (req # reqs) =
     session # analysed_run (snd (analysed_step session req)) reqs"

text \<open>\<open>stageData[st].completed\<close>, as a reader of the session sees it.\<close>

definition completed_flag :: "SessionState \<Rightarrow> string \<Rightarrow> jsval" where
  "completed_flag session st =
     (case stageData session st of None \<Rightarrow> JUndefined | Some rec \<Rightarrow> record_get rec ''completed'')"

section \<open>Stage histories, turns and clocks\<close>

text \<open>
  A stage history is in order when every entry is one of the six stages, the ranks never
  decrease, and each entry is its predecessor or the stage right after it.
\<close>

definition stage_history_ok :: "string list \<Rightarrow> bool" where
  "stage_history_ok tr = (list_all is_stage tr \<and> sorted (map stage_rank tr) \<and> chain_ok tr)"

text \<open>
  A chat request whose completion call returns a text (and, for the serverless handler,
  whose body is a JSON object) is answered with status 200.  The clock readings of a
  request are the ones its \<open>addMessage\<close> calls take, when they are reached.
  \<open>stamps\<close> are the timestamps of the history in order.
\<close>

fun server_turn_ok :: "server_request \<Rightarrow> bool" where
  "server_turn_ok (ServerChat message t1 t2 (CompletionContent (JStr answer))) = True"
| "server_turn_ok req = False"

fun simple_turn_ok :: "simple_request \<Rightarrow> bool" where
  "simple_turn_ok (SimpleChat (Some (JObj fs)) t1 t2 (CompletionContent (JStr answer))) = True"
| "simple_turn_ok req = False"

fun server_clock :: "server_request \<Rightarrow> nat list" where
  "server_clock (ServerChat message t1 t2 c) = [t1, t2]"
| "server_clock req = []"

fun simple_clock :: "simple_request \<Rightarrow> nat list" where
  "simple_clock (SimpleChat body t1 t2 c) = [t1, t2]"
| "simple_clock req = []"

definition stamps :: "'a SessionBase_scheme \<Rightarrow> nat list" where
  "stamps session = map timestamp (conversationHistory session)"

text \<open>
  A runtime whose locale prints the first of January 1970 for a reading of the clock, as
  one run in the first minutes of that day does.
\<close>

definition runtime_1970 :: runtime where
  "runtime_1970 = \<lparr> toLocaleDateString = (\<lambda>t. ''1/1/1970''), string_positive = (\<lambda>s. False) \<rparr>"

section \<open>Facts about strings and stages\<close>

lemma includes_js_sublist: "includes_js s t \<longleftrightarrow> sublist t s"
  by (induction s) (auto simp: sublist_Cons_right)

lemma stage_names_distinct: "distinct STAGE_ORDER"
  by (simp add: STAGE_ORDER_def CONTEXT_DISCOVERY_def OBJECTIVE_DEFINITION_def
      METHOD_IDEATION_def METHOD_SELECTION_def IMPLEMENTATION_PLAN_def COMPLETE_def)

lemmas stage_defs = CONTEXT_DISCOVERY_def OBJECTIVE_DEFINITION_def
  METHOD_IDEATION_def METHOD_SELECTION_def IMPLEMENTATION_PLAN_def COMPLETE_def

section \<open>Facts about the keyword policy\<close>

lemma updateSessionStage_simple_eq:
  "updateSessionStage_simple session response = updateSessionStage session response"
  unfolding updateSessionStage_simple_def updateSessionStage_def setStage_def by (rule refl)

lemma updateSessionStage_table:
  "updateSessionStage session (JStr answer) =
     Inr (session\<lparr> stage :=
       (let low = toLowerCase answer in
        if stage session = CONTEXT_DISCOVERY \<and>
             (sublist ''yes, that's right'' low \<or> sublist ''correct'' low)
        then OBJECTIVE_DEFINITION
        else if stage session = OBJECTIVE_DEFINITION \<and>
             (sublist ''root cause'' low \<or> sublist ''problem statement'' low)
        then METHOD_IDEATION
        else if stage session = METHOD_IDEATION \<and> sublist ''method'' low \<and>
             (sublist ''1.'' low \<or> sublist ''2.'' low \<or> sublist ''3.'' low)
        then METHOD_SELECTION
        else if stage session = METHOD_SELECTION \<and> sublist ''implementation plan'' low
        then IMPLEMENTATION_PLAN
        else if stage session = IMPLEMENTATION_PLAN \<and> sublist ''performance measures'' low
             \<and> sublist ''learning questions'' low
        then COMPLETE
        else stage session) \<rparr>)"
  unfolding updateSessionStage_def setStage_def Let_def includes_js_sublist
  by (simp add: stage_defs)

lemma updateSessionStage_not_string:
  "\<forall>answer. response \<noteq> JStr answer \<Longrightarrow>
     updateSessionStage session response = Inl TypeError"
  by (cases response) (simp_all add: updateSessionStage_def)

lemma updateSessionStage_frame:
  "updateSessionStage session response = Inr session' \<Longrightarrow>
     session' = session\<lparr> stage := stage session' \<rparr>"
proof (cases response)
  case (JStr answer)
  assume "updateSessionStage session response = Inr session'"
  with JStr updateSessionStage_table [of session answer] show ?thesis by auto
qed (simp_all add: updateSessionStage_def)

lemma lower_example_yes:
  "toLowerCase ''Yes, that's right, this matches my situation.'' =
     ''yes, that's right, this matches my situation.''"
  by (simp add: toLowerCase_def lower_char_def lower_table_def)

lemma lower_example_explore:
  "toLowerCase ''Let's explore options.'' = ''let's explore options.''"
  by (simp add: toLowerCase_def lower_char_def lower_table_def)

lemma example_yes:
  "updateSessionStage (session\<lparr> stage := CONTEXT_DISCOVERY \<rparr>)
     (JStr ''Yes, that's right, this matches my situation.'') =
   Inr (session\<lparr> stage := OBJECTIVE_DEFINITION \<rparr>)"
proof -
  have "sublist ''yes, that's right'' ''yes, that's right, this matches my situation.''"
    by code_simp
  then show ?thesis
    by (simp add: updateSessionStage_table lower_example_yes Let_def stage_defs)
qed

lemma example_explore:
  "updateSessionStage (session\<lparr> stage := CONTEXT_DISCOVERY \<rparr>)
     (JStr ''Let's explore options.'') =
   Inr (session\<lparr> stage := CONTEXT_DISCOVERY \<rparr>)"
proof -
  have "\<not> sublist ''yes, that's right'' ''let's explore options.''"
       "\<not> sublist ''correct'' ''let's explore options.''"
    by code_simp+
  then show ?thesis
    by (simp add: updateSessionStage_table lower_example_explore Let_def stage_defs)
qed

section \<open>Facts about the assisted policy\<close>



lemma fold_upd_map_add:
  "fold (\<lambda>(k, v) m. m(k \<mapsto> v)) d rec = rec ++ map_of (rev d)"
proof (induction d arbitrary: rec)
  case Nil
  then show ?case by simp
next
  case (Cons p d)
  obtain k v where p: "p = (k, v)" by (cases p)
  have "fold (\<lambda>(k, v) m. m(k \<mapsto> v)) (p # d) rec =
        fold (\<lambda>(k, v) m. m(k \<mapsto> v)) d (rec(k \<mapsto> v))"
    by (simp add: p del: fun_upd_apply)
  also have "\<dots> = rec(k \<mapsto> v) ++ map_of (rev d)"
    by (rule Cons.IH)
  also have "\<dots> = rec ++ map_of (rev (p # d))"
    by (rule ext) (simp add: p map_add_def split: option.splits)
  finally show ?case .
qed

lemma object_assign_JObj: "object_assign rec (JObj d) = rec ++ map_of (rev d)"
  by (simp add: object_assign_def fold_upd_map_add)


lemma updateStageData_present:
  "stageData session st = Some rec \<Longrightarrow>
     updateStageData session st data =
       session\<lparr> stageData := (stageData session)(st \<mapsto> object_assign rec data) \<rparr>"
  by (simp add: updateStageData_def)

lemma updateStageData_stage [simp]: "stage (updateStageData session st data) = stage session"
  by (simp add: updateStageData_def split: option.splits)

lemma updateStageData_history [simp]:
  "conversationHistory (updateStageData session st data) = conversationHistory session"
  by (simp add: updateStageData_def split: option.splits)

lemma updateStageData_metrics [simp]:
  "progressMetrics (updateStageData session st data) = progressMetrics session"
  by (simp add: updateStageData_def split: option.splits)

lemma updateStageData_other:
  "k \<noteq> st \<Longrightarrow> stageData (updateStageData session st data) k = stageData session k"
  by (simp add: updateStageData_def split: option.splits)

lemma stage_ranks:
  "stage_rank CONTEXT_DISCOVERY = 0" "stage_rank OBJECTIVE_DEFINITION = 1"
  "stage_rank METHOD_IDEATION = 2" "stage_rank METHOD_SELECTION = 3"
  "stage_rank IMPLEMENTATION_PLAN = 4" "stage_rank COMPLETE = 5"
  by (simp_all add: stage_rank_def STAGE_ORDER_def stage_defs)

lemma stage_neq:
  "CONTEXT_DISCOVERY \<noteq> OBJECTIVE_DEFINITION" "CONTEXT_DISCOVERY \<noteq> METHOD_IDEATION"
  "CONTEXT_DISCOVERY \<noteq> METHOD_SELECTION" "CONTEXT_DISCOVERY \<noteq> IMPLEMENTATION_PLAN"
  "CONTEXT_DISCOVERY \<noteq> COMPLETE" "OBJECTIVE_DEFINITION \<noteq> METHOD_IDEATION"
  "OBJECTIVE_DEFINITION \<noteq> METHOD_SELECTION" "OBJECTIVE_DEFINITION \<noteq> IMPLEMENTATION_PLAN"
  "OBJECTIVE_DEFINITION \<noteq> COMPLETE" "METHOD_IDEATION \<noteq> METHOD_SELECTION"
  "METHOD_IDEATION \<noteq> IMPLEMENTATION_PLAN" "METHOD_IDEATION \<noteq> COMPLETE"
  "METHOD_SELECTION \<noteq> IMPLEMENTATION_PLAN" "METHOD_SELECTION \<noteq> COMPLETE"
  "IMPLEMENTATION_PLAN \<noteq> COMPLETE"
  by (simp_all add: stage_defs)

lemmas stage_distinct = stage_neq stage_neq [symmetric]

lemma is_stage_cases:
  "is_stage st \<longleftrightarrow> st = CONTEXT_DISCOVERY \<or> st = OBJECTIVE_DEFINITION \<or> st = METHOD_IDEATION
     \<or> st = METHOD_SELECTION \<or> st = IMPLEMENTATION_PLAN \<or> st = COMPLETE"
  by (simp add: is_stage_def STAGE_ORDER_def)

lemma criteria_cases:
  "STAGE_CRITERIA st = Some crit \<Longrightarrow>
     (st = CONTEXT_DISCOVERY \<and> nextStage crit = Some OBJECTIVE_DEFINITION)
   \<or> (st = OBJECTIVE_DEFINITION \<and> nextStage crit = Some METHOD_IDEATION)
   \<or> (st = METHOD_IDEATION \<and> nextStage crit = Some METHOD_SELECTION)
   \<or> (st = METHOD_SELECTION \<and> nextStage crit = Some IMPLEMENTATION_PLAN)
   \<or> (st = IMPLEMENTATION_PLAN \<and> nextStage crit = Some COMPLETE)
   \<or> (st = COMPLETE \<and> nextStage crit = None)"
  by (auto simp: STAGE_CRITERIA_def split: if_splits)

lemma criteria_next:
  "STAGE_CRITERIA st = Some crit \<Longrightarrow> nextStage crit = Some next \<Longrightarrow>
     is_stage st \<and> is_stage next \<and> stage_rank next = Suc (stage_rank st)"
  by (drule criteria_cases) (auto simp: is_stage_cases stage_ranks)

lemma criteria_complete: "STAGE_CRITERIA COMPLETE = Some crit \<Longrightarrow> nextStage crit = None"
  by (drule criteria_cases) (auto simp: stage_distinct)

lemma criteria_complete_ex: "\<exists>crit. STAGE_CRITERIA COMPLETE = Some crit \<and> nextStage crit = None"
  by (simp add: STAGE_CRITERIA_def stage_defs)

lemma progress_complete:
  "stage session = COMPLETE \<Longrightarrow> snd (progress session analysis now) = session"
  using criteria_complete_ex
  by (auto simp: progress_def split: sum.splits option.splits)

lemma progress_complete_truthy:
  "stage session = COMPLETE \<Longrightarrow> get_field analysis ''shouldProgress'' = Inr p \<Longrightarrow>
     progress session analysis now = (analysis, session)"
  using criteria_complete_ex
  by (auto simp: progress_def split: sum.splits option.splits)

lemma analysisPrompt_ok:
  "toString_js userMessage = Inr u \<Longrightarrow> toString_js assistantResponse = Inr a \<Longrightarrow>
     analysisPrompt session userMessage assistantResponse = Inr (u, a)"
  by (simp add: analysisPrompt_def)

lemma analyze_failed:
  assumes "toString_js userMessage = Inr u" and "toString_js assistantResponse = Inr a"
    and "reply = AnalysisThrew \<or> reply = AnalysisNotJSON \<or> reply = AnalysisParsed JNull"
  shows "analyzeAndProgressStage session userMessage assistantResponse reply now =
           Inr (analysis_error, session)"
  using assms by (auto simp: analyzeAndProgressStage_def analysisPrompt_def)

lemma analyze_parsed:
  assumes "toString_js userMessage = Inr u" and "toString_js assistantResponse = Inr a"
    and "get_field analysis ''extractedData'' = Inr d"
  shows "analyzeAndProgressStage session userMessage assistantResponse (AnalysisParsed analysis) now =
           Inr (progress (if truthy d then updateStageData session (stage session) d else session)
                  analysis now)"
  using assms by (simp add: analyzeAndProgressStage_def analysisPrompt_def)

lemma advance_stage [simp]: "stage (advance session next now) = next"
  by (simp add: advance_def Let_def)

lemma advance_history [simp]:
  "conversationHistory (advance session next now) = conversationHistory session"
  by (simp add: advance_def Let_def)

lemma advance_stageData:
  "stageData (advance session next now) =
     stageData (updateStageData session (stage session) (JObj [(''completed'', JBool True)]))"
  by (simp add: advance_def Let_def)



lemma addMessage_twice:
  "addMessage (addMessage session r1 c1 t1) r2 c2 t2 =
     session\<lparr> conversationHistory := conversationHistory session @
       [\<lparr> role = r1, content = c1, timestamp = t1 \<rparr>,
        \<lparr> role = r2, content = c2, timestamp = t2 \<rparr>] \<rparr>"
  by (simp add: addMessage_def)

lemma chat_analysed_text:
  assumes "get_field body ''message'' = Inr (JStr userMessage)"
  shows "chat_analysed session (Some body) t1 t2 t3 (CompletionContent (JStr assistantResponse)) reply =
     (case analyzeAndProgressStage
             (session\<lparr> conversationHistory := conversationHistory session @
                [\<lparr> role = ''user'', content = JStr userMessage, timestamp = t1 \<rparr>,
                 \<lparr> role = ''assistant'', content = JStr assistantResponse, timestamp = t2 \<rparr>] \<rparr>)
             (JStr userMessage) (JStr assistantResponse) reply t3 of
        Inl e \<Rightarrow> (InternalError,
           session\<lparr> conversationHistory := conversationHistory session @
                [\<lparr> role = ''user'', content = JStr userMessage, timestamp = t1 \<rparr>,
                 \<lparr> role = ''assistant'', content = JStr assistantResponse, timestamp = t2 \<rparr>] \<rparr>)
      | Inr (analysis, s3) \<Rightarrow>
          (AnalysedChatReply (JStr assistantResponse) (stage s3) analysis
             (getCurrentStageData s3) (stageData s3) (progressMetrics s3), s3))"
  using assms by (simp add: chat_analysed_def addMessage_twice Let_def split: sum.splits)

lemma analysis_failure_chat:
  assumes msg: "get_field body ''message'' = Inr (JStr userMessage)"
    and fail: "reply = AnalysisThrew \<or> reply = AnalysisNotJSON \<or> reply = AnalysisParsed JNull"
  shows "chat_analysed session (Some body) t1 t2 t3 (CompletionContent (JStr assistantResponse)) reply =
     (AnalysedChatReply (JStr assistantResponse) (stage session) analysis_error
        (stageData session (stage session)) (stageData session) (progressMetrics session),
      session\<lparr> conversationHistory := conversationHistory session @
         [\<lparr> role = ''user'', content = JStr userMessage, timestamp = t1 \<rparr>,
          \<lparr> role = ''assistant'', content = JStr assistantResponse, timestamp = t2 \<rparr>] \<rparr>)"
  unfolding chat_analysed_text [OF msg]
  by (simp add: analyze_failed [OF _ _ fail] getCurrentStageData_def)

lemma addMessage_stage [simp]: "stage (addMessage session r c now) = stage session"
  by (simp add: addMessage_def)

lemma addMessage_stageData [simp]: "stageData (addMessage session r c now) = stageData session"
  by (simp add: addMessage_def)

lemma advance_other:
  "k \<noteq> stage session \<Longrightarrow> stageData (advance session next now) k = stageData session k"
  by (simp add: advance_stageData updateStageData_other)

lemma advance_completed:
  "stageData session (stage session) = Some rec \<Longrightarrow>
     completed_flag (advance session next now) (stage session) = JBool True"
  by (simp add: completed_flag_def advance_stageData updateStageData_present object_assign_JObj
      record_get_def)

text \<open>What one call of the assisted policy can do to the stage and the records.\<close>

lemma progress_shape:
  "snd (progress session analysis now) = session
   \<or> (\<exists>crit next. STAGE_CRITERIA (stage session) = Some crit \<and> nextStage crit = Some next
        \<and> snd (progress session analysis now) = advance session next now)"
  by (auto simp: progress_def Let_def split: sum.splits option.splits)

lemma analyze_shape:
  assumes "analyzeAndProgressStage session userMessage assistantResponse reply now =
      Inr (result, session')"
  shows "\<exists>s1. (s1 = session \<or> (\<exists>d. s1 = updateStageData session (stage session) d))
     \<and> (session' = s1
        \<or> (\<exists>crit next. STAGE_CRITERIA (stage session) = Some crit \<and> nextStage crit = Some next
             \<and> session' = advance s1 next now))"
proof (cases "analysisPrompt session userMessage assistantResponse")
  case (Inl e)
  with assms show ?thesis by (simp add: analyzeAndProgressStage_def)
next
  case prompt: (Inr pr)
  show ?thesis
  proof (cases reply)
    case AnalysisThrew
    with assms prompt show ?thesis by (auto simp: analyzeAndProgressStage_def)
  next
    case AnalysisNotJSON
    with assms prompt show ?thesis by (auto simp: analyzeAndProgressStage_def)
  next
    case (AnalysisParsed analysis)
    show ?thesis
    proof (cases "get_field analysis ''extractedData''")
      case (Inl e)
      with assms prompt AnalysisParsed show ?thesis by (auto simp: analyzeAndProgressStage_def)
    next
      case (Inr d)
      let ?s1 = "if truthy d then updateStageData session (stage session) d else session"
      have s': "session' = snd (progress ?s1 analysis now)"
        using assms prompt AnalysisParsed Inr
        by (auto simp: analyzeAndProgressStage_def Let_def split: if_splits)
      have st: "stage ?s1 = stage session" by simp
      have "?s1 = session \<or> (\<exists>d. ?s1 = updateStageData session (stage session) d)" by auto
      moreover have "session' = ?s1
        \<or> (\<exists>crit next. STAGE_CRITERIA (stage session) = Some crit \<and> nextStage crit = Some next
             \<and> session' = advance ?s1 next now)"
        using progress_shape [of ?s1 analysis now] unfolding s' st by blast
      ultimately show ?thesis by blast
    qed
  qed
qed

lemma analyze_step:
  assumes "analyzeAndProgressStage session userMessage assistantResponse reply now =
      Inr (result, session')"
  shows "(\<forall>k. k \<noteq> stage session \<longrightarrow> stageData session' k = stageData session k)
     \<and> (stage session' = stage session
        \<or> (\<exists>crit. STAGE_CRITERIA (stage session) = Some crit
              \<and> nextStage crit = Some (stage session')
              \<and> (stageData session (stage session) \<noteq> None \<longrightarrow>
                    completed_flag session' (stage session) = JBool True)))"
proof -
  from analyze_shape [OF assms] obtain s1 where
    s1: "s1 = session \<or> (\<exists>d. s1 = updateStageData session (stage session) d)"
    and s': "session' = s1
        \<or> (\<exists>crit next. STAGE_CRITERIA (stage session) = Some crit \<and> nextStage crit = Some next
             \<and> session' = advance s1 next now)"
    by blast
  have st: "stage s1 = stage session" using s1 by auto
  have other: "\<forall>k. k \<noteq> stage session \<longrightarrow> stageData s1 k = stageData session k"
    using s1 by (auto simp: updateStageData_other)
  have dom: "stageData session (stage session) \<noteq> None \<Longrightarrow> stageData s1 (stage s1) \<noteq> None"
    using s1 by (auto simp: updateStageData_def split: option.splits)
  from s' show ?thesis
  proof
    assume "session' = s1"
    with st other show ?thesis by simp
  next
    assume "\<exists>crit next. STAGE_CRITERIA (stage session) = Some crit \<and> nextStage crit = Some next
             \<and> session' = advance s1 next now"
    then obtain crit "next" where crit: "STAGE_CRITERIA (stage session) = Some crit"
      and nxt: "nextStage crit = Some next" and adv: "session' = advance s1 next now"
      by blast
    have "\<forall>k. k \<noteq> stage session \<longrightarrow> stageData session' k = stageData session k"
      using other st by (simp add: adv advance_other)
    moreover have "stageData session (stage session) \<noteq> None \<longrightarrow>
        completed_flag session' (stage session) = JBool True"
      using dom advance_completed [of s1 _ "next" now] st adv by auto
    ultimately show ?thesis using crit nxt adv by simp
  qed
qed

lemma analysed_step_facts:
  "(\<forall>k. k \<noteq> stage session \<longrightarrow>
       stageData (snd (analysed_step session req)) k = stageData session k)
   \<and> (stage (snd (analysed_step session req)) = stage session
      \<or> (\<exists>crit. STAGE_CRITERIA (stage session) = Some crit
            \<and> nextStage crit = Some (stage (snd (analysed_step session req)))
            \<and> (stageData session (stage session) \<noteq> None \<longrightarrow>
                  completed_flag (snd (analysed_step session req)) (stage session) = JBool True)))"
proof (cases req)
  case (AnalysedReport rt now1 now2)
  then show ?thesis by (simp add: report_analysed_def split: sum.splits)
next
  case (AnalysedChat body t1 t2 t3 c reply)
  show ?thesis
  proof (cases "\<exists>b message a result session'. body = Some b \<and> get_field b ''message'' = Inr message
      \<and> c = CompletionContent a
      \<and> analyzeAndProgressStage (addMessage (addMessage session ''user'' message t1) ''assistant'' a t2)
           message a reply t3 = Inr (result, session')")
    case True
    then obtain b message a result session' where
      run: "analyzeAndProgressStage (addMessage (addMessage session ''user'' message t1) ''assistant'' a t2)
           message a reply t3 = Inr (result, session')"
      and rest: "body = Some b" "get_field b ''message'' = Inr message" "c = CompletionContent a"
      by blast
    have "snd (analysed_step session req) = session'"
      using AnalysedChat run rest by (simp add: chat_analysed_def Let_def)
    with analyze_step [OF run] show ?thesis by (simp add: completed_flag_def)
  next
    case False
    then have "stage (snd (analysed_step session req)) = stage session
        \<and> stageData (snd (analysed_step session req)) = stageData session"
      using AnalysedChat
      by (auto simp: chat_analysed_def Let_def split: option.splits sum.splits completion.splits)
    then show ?thesis by simp
  qed
qed

lemma completed_persists:
  assumes "is_stage (stage x)" and "stage_rank k0 < stage_rank (stage x)"
    and "completed_flag x k0 = v"
  shows "list_all (\<lambda>later. completed_flag later k0 = v) (analysed_run x reqs)"
  using assms
proof (induction reqs arbitrary: x)
  case Nil
  then show ?case by simp
next
  case (Cons req reqs)
  let ?x' = "snd (analysed_step x req)"
  from Cons.prems have ne: "k0 \<noteq> stage x" by auto
  from analysed_step_facts [of x req] ne
  have same: "stageData ?x' k0 = stageData x k0"
    and st: "stage ?x' = stage x
      \<or> (\<exists>crit. STAGE_CRITERIA (stage x) = Some crit \<and> nextStage crit = Some (stage ?x'))"
    by blast+
  have flag: "completed_flag ?x' k0 = v"
    using Cons.prems(3) same by (simp add: completed_flag_def)
  from st have "is_stage (stage ?x') \<and> stage_rank k0 < stage_rank (stage ?x')"
  proof
    assume "stage ?x' = stage x"
    with Cons.prems show ?thesis by simp
  next
    assume "\<exists>crit. STAGE_CRITERIA (stage x) = Some crit \<and> nextStage crit = Some (stage ?x')"
    then obtain crit where "STAGE_CRITERIA (stage x) = Some crit" "nextStage crit = Some (stage ?x')"
      by blast
    from criteria_next [OF this] Cons.prems show ?thesis by simp
  qed
  with Cons.IH [of ?x'] flag have "list_all (\<lambda>later. completed_flag later k0 = v) (analysed_run ?x' reqs)"
    by simp
  with Cons.prems(3) show ?case by simp
qed

lemmas run_defs = chat_analysed_def analyzeAndProgressStage_def analysisPrompt_def progress_def
  advance_def updateStageData_def object_assign_def STAGE_CRITERIA_def new_SessionState_def
  initial_stageData_def addMessage_def completed_flag_def record_get_def Let_def

section \<open>Facts about stage histories\<close>

lemma chain_ok_Cons: "chain_ok (a # tr) \<longleftrightarrow> (tr = [] \<or> (stays_or_next a (hd tr) \<and> chain_ok tr))"
  by (cases tr) simp_all

lemma chain_ok_is_stage: "chain_ok (a # tr) \<Longrightarrow> is_stage a \<Longrightarrow> list_all is_stage (a # tr)"
proof (induction tr arbitrary: a)
  case Nil
  then show ?case by simp
next
  case (Cons b tr)
  then have "stays_or_next a b" "chain_ok (b # tr)" by simp_all
  with Cons.prems have "is_stage b" by (auto simp: stays_or_next_def)
  with Cons.IH [of b] \<open>chain_ok (b # tr)\<close> Cons.prems show ?case by simp
qed

lemma chain_ok_rank_le: "chain_ok (a # tr) \<Longrightarrow> \<forall>b \<in> set tr. stage_rank a \<le> stage_rank b"
proof (induction tr arbitrary: a)
  case Nil
  then show ?case by simp
next
  case (Cons b tr)
  then have ab: "stays_or_next a b" and rest: "chain_ok (b # tr)" by simp_all
  from ab have le: "stage_rank a \<le> stage_rank b" by (auto simp: stays_or_next_def)
  from Cons.IH [OF rest] le show ?case by auto
qed

lemma chain_ok_sorted: "chain_ok tr \<Longrightarrow> sorted (map stage_rank tr)"
proof (induction tr)
  case Nil
  then show ?case by simp
next
  case (Cons a tr)
  then have "chain_ok tr" by (cases tr) simp_all
  with Cons.IH chain_ok_rank_le [OF Cons.prems] show ?case by simp
qed

lemma stage_history_okI:
  assumes "chain_ok tr" and "tr \<noteq> []" and "is_stage (hd tr)"
  shows "stage_history_ok tr"
proof -
  from assms obtain a rest where tr: "tr = a # rest" by (cases tr) auto
  with assms chain_ok_is_stage [of a rest] chain_ok_sorted [of tr]
  show ?thesis by (simp add: stage_history_ok_def)
qed

text \<open>Any function that runs requests one after the other, each step staying or advancing.\<close>

lemma run_chain_ok:
  fixes run :: "'s \<Rightarrow> 'r list \<Rightarrow> 's list" and stage_of :: "'s \<Rightarrow> string"
  assumes nil: "\<And>s. run s [] = [s]"
    and cons: "\<And>s r rs. run s (r # rs) = s # run (snd (step s r)) rs"
    and one: "\<And>s r. stays_or_next (stage_of s) (stage_of (snd (step s r)))"
  shows "chain_ok (map stage_of (run s rs)) \<and> run s rs \<noteq> [] \<and> hd (run s rs) = s"
proof (induction rs arbitrary: s)
  case Nil
  then show ?case by (simp add: nil)
next
  case (Cons r rs)
  from Cons.IH [of "snd (step s r)"] one [of s r]
  show ?case by (simp add: cons chain_ok_Cons hd_map)
qed

lemma keyword_stays_or_next:
  assumes "updateSessionStage session response = Inr session'"
  shows "stays_or_next (stage session) (stage session')"
proof (cases response)
  case (JStr answer)
  with assms updateSessionStage_table [of session answer]
  have "stage session' =
       (let low = toLowerCase answer in
        if stage session = CONTEXT_DISCOVERY \<and>
             (sublist ''yes, that's right'' low \<or> sublist ''correct'' low)
        then OBJECTIVE_DEFINITION
        else if stage session = OBJECTIVE_DEFINITION \<and>
             (sublist ''root cause'' low \<or> sublist ''problem statement'' low)
        then METHOD_IDEATION
        else if stage session = METHOD_IDEATION \<and> sublist ''method'' low \<and>
             (sublist ''1.'' low \<or> sublist ''2.'' low \<or> sublist ''3.'' low)
        then METHOD_SELECTION
        else if stage session = METHOD_SELECTION \<and> sublist ''implementation plan'' low
        then IMPLEMENTATION_PLAN
        else if stage session = IMPLEMENTATION_PLAN \<and> sublist ''performance measures'' low
             \<and> sublist ''learning questions'' low
        then COMPLETE
        else stage session)"
    by auto
  then show ?thesis
    by (auto simp: stays_or_next_def Let_def is_stage_cases stage_ranks split: if_splits)
qed (insert assms, simp_all add: updateSessionStage_def)

lemma server_step_stage:
  "stays_or_next (stage session) (stage (snd (server_step session req)))"
proof (cases req)
  case (ServerChat message t1 t2 c)
  show ?thesis
  proof (cases c)
    case CompletionThrew
    with ServerChat show ?thesis
      by (simp add: chat_server_def Let_def stays_or_next_def)
  next
    case (CompletionContent a)
    let ?s2 = "addMessage (addMessage session ''user'' message t1) ''assistant'' a t2"
    show ?thesis
    proof (cases "updateSessionStage ?s2 a")
      case (Inl e)
      with ServerChat CompletionContent show ?thesis
        by (simp add: chat_server_def Let_def stays_or_next_def)
    next
      case (Inr s3)
      from keyword_stays_or_next [OF Inr] have "stays_or_next (stage session) (stage s3)" by simp
      with ServerChat CompletionContent Inr show ?thesis
        by (simp add: chat_server_def Let_def)
    qed
  qed
next
  case (ServerUpload uuid f o1 o2 o3 now)
  then show ?thesis
    by (simp add: upload_server_def addArtifact_def Let_def stays_or_next_def)
next
  case ServerReport
  then show ?thesis
    by (simp add: report_server_def stays_or_next_def split: sum.splits)
qed

lemma simple_step_stage:
  "stays_or_next (stage session) (stage (snd (simple_step session req)))"
proof (cases req)
  case (SimpleChat body t1 t2 c)
  show ?thesis
  proof (cases "\<exists>b message a s3. body = Some b \<and> get_field b ''message'' = Inr message
      \<and> c = CompletionContent a
      \<and> updateSessionStage (addMessage (addMessage session ''user'' message t1) ''assistant'' a t2) a
          = Inr s3")
    case True
    then obtain b message a s3 where
      run: "updateSessionStage (addMessage (addMessage session ''user'' message t1) ''assistant'' a t2) a
          = Inr s3"
      and rest: "body = Some b" "get_field b ''message'' = Inr message" "c = CompletionContent a"
      by blast
    from keyword_stays_or_next [OF run] have "stays_or_next (stage session) (stage s3)" by simp
    with SimpleChat run rest show ?thesis
      by (simp add: chat_simple_def Let_def updateSessionStage_simple_eq)
  next
    case False
    then have "stage (snd (simple_step session req)) = stage session"
      using SimpleChat
      by (auto simp: chat_simple_def Let_def updateSessionStage_simple_eq
          split: option.splits sum.splits completion.splits)
    then show ?thesis by (simp add: stays_or_next_def)
  qed
next
  case SimpleReport
  then show ?thesis
    by (simp add: report_simple_def stays_or_next_def split: sum.splits)
qed

lemma analysed_step_stage:
  "stays_or_next (stage session) (stage (snd (analysed_step session req)))"
proof -
  from analysed_step_facts [of session req]
  have "stage (snd (analysed_step session req)) = stage session
      \<or> (\<exists>crit. STAGE_CRITERIA (stage session) = Some crit
            \<and> nextStage crit = Some (stage (snd (analysed_step session req))))"
    by blast
  then show ?thesis
    using criteria_next by (auto simp: stays_or_next_def)
qed

section \<open>Facts about chat turns\<close>

lemma updateSessionStage_history:
  assumes "updateSessionStage session response = Inr session'"
  shows "conversationHistory session' = conversationHistory session"
  by (subst updateSessionStage_frame [OF assms]) simp

lemma updateSessionStage_total: "\<exists>session'. updateSessionStage session (JStr answer) = Inr session'"
  by (simp add: updateSessionStage_table)

lemma chat_server_ok:
  "\<exists>s3. chat_server session message t1 t2 (CompletionContent (JStr answer)) =
       (ChatReply (JStr answer) (stage s3) (artifacts (session_context s3)) (objective s3)
          (methods s3), s3)
     \<and> conversationHistory s3 = conversationHistory session @
         [\<lparr> role = ''user'', content = message, timestamp = t1 \<rparr>,
          \<lparr> role = ''assistant'', content = JStr answer, timestamp = t2 \<rparr>]
     \<and> updateSessionStage
          (session\<lparr> conversationHistory := conversationHistory session @
             [\<lparr> role = ''user'', content = message, timestamp = t1 \<rparr>,
              \<lparr> role = ''assistant'', content = JStr answer, timestamp = t2 \<rparr>] \<rparr>)
          (JStr answer) = Inr s3"
proof -
  let ?s2 = "session\<lparr> conversationHistory := conversationHistory session @
             [\<lparr> role = ''user'', content = message, timestamp = t1 \<rparr>,
              \<lparr> role = ''assistant'', content = JStr answer, timestamp = t2 \<rparr>] \<rparr>"
  from updateSessionStage_total obtain s3 where s3: "updateSessionStage ?s2 (JStr answer) = Inr s3"
    by blast
  have "chat_server session message t1 t2 (CompletionContent (JStr answer)) =
       (ChatReply (JStr answer) (stage s3) (artifacts (session_context s3)) (objective s3)
          (methods s3), s3)"
    by (simp add: chat_server_def Let_def addMessage_twice s3)
  moreover have "conversationHistory s3 = conversationHistory ?s2"
    by (rule updateSessionStage_history [OF s3])
  ultimately show ?thesis using s3 by auto
qed

lemma chat_server_threw:
  "chat_server session message t1 t2 CompletionThrew =
     (ChatFailure, session\<lparr> conversationHistory := conversationHistory session @
         [\<lparr> role = ''user'', content = message, timestamp = t1 \<rparr>] \<rparr>)"
  by (simp add: chat_server_def Let_def addMessage_def)

lemma chat_server_status:
  "statusCode (fst (chat_server session message t1 t2 c)) = 200 \<longleftrightarrow>
     (\<exists>answer. c = CompletionContent (JStr answer))"
proof (cases c)
  case CompletionThrew
  then show ?thesis by (simp add: chat_server_threw)
next
  case (CompletionContent a)
  show ?thesis
  proof (cases "\<exists>answer. a = JStr answer")
    case True
    then obtain answer where "a = JStr answer" by blast
    with CompletionContent chat_server_ok [of session message t1 t2 answer] show ?thesis by auto
  next
    case False
    then have "updateSessionStage
        (addMessage (addMessage session ''user'' message t1) ''assistant'' a t2) a = Inl TypeError"
      by (intro updateSessionStage_not_string) simp
    with CompletionContent False show ?thesis by (simp add: chat_server_def Let_def)
  qed
qed

lemma chat_simple_ok:
  assumes msg: "get_field body ''message'' = Inr message"
  shows "\<exists>s3. chat_simple session (Some body) t1 t2 (CompletionContent (JStr answer)) =
       (ChatReply (JStr answer) (stage s3) (artifacts (session_context s3)) (objective s3)
          (methods s3), s3)
     \<and> conversationHistory s3 = conversationHistory session @
         [\<lparr> role = ''user'', content = message, timestamp = t1 \<rparr>,
          \<lparr> role = ''assistant'', content = JStr answer, timestamp = t2 \<rparr>]
     \<and> updateSessionStage_simple
          (session\<lparr> conversationHistory := conversationHistory session @
             [\<lparr> role = ''user'', content = message, timestamp = t1 \<rparr>,
              \<lparr> role = ''assistant'', content = JStr answer, timestamp = t2 \<rparr>] \<rparr>)
          (JStr answer) = Inr s3"
proof -
  let ?s2 = "session\<lparr> conversationHistory := conversationHistory session @
             [\<lparr> role = ''user'', content = message, timestamp = t1 \<rparr>,
              \<lparr> role = ''assistant'', content = JStr answer, timestamp = t2 \<rparr>] \<rparr>"
  from updateSessionStage_total obtain s3 where s3: "updateSessionStage ?s2 (JStr answer) = Inr s3"
    by blast
  then have s3': "updateSessionStage_simple ?s2 (JStr answer) = Inr s3"
    by (simp add: updateSessionStage_simple_eq)
  have "chat_simple session (Some body) t1 t2 (CompletionContent (JStr answer)) =
       (ChatReply (JStr answer) (stage s3) (artifacts (session_context s3)) (objective s3)
          (methods s3), s3)"
    by (simp add: chat_simple_def Let_def addMessage_twice s3' msg)
  moreover have "conversationHistory s3 = conversationHistory ?s2"
    by (rule updateSessionStage_history [OF s3])
  ultimately show ?thesis using s3' by auto
qed

lemma chat_simple_threw:
  assumes "get_field body ''message'' = Inr message"
  shows "chat_simple session (Some body) t1 t2 CompletionThrew =
     (InternalError, session\<lparr> conversationHistory := conversationHistory session @
         [\<lparr> role = ''user'', content = message, timestamp = t1 \<rparr>] \<rparr>)"
  using assms by (simp add: chat_simple_def Let_def addMessage_def)

lemma chat_analysed_threw:
  assumes "get_field body ''message'' = Inr message"
  shows "chat_analysed session (Some body) t1 t2 t3 CompletionThrew reply =
     (InternalError, session\<lparr> conversationHistory := conversationHistory session @
         [\<lparr> role = ''user'', content = message, timestamp = t1 \<rparr>] \<rparr>)"
  using assms by (simp add: chat_analysed_def Let_def addMessage_def)

lemma server_turn_ok_history:
  "server_turn_ok req \<Longrightarrow>
     length (conversationHistory (snd (server_step session req))) =
       length (conversationHistory session) + 2"
proof (induction req rule: server_turn_ok.induct)
  case (1 message t1 t2 answer)
  from chat_server_ok [of session message t1 t2 answer] show ?case by auto
qed simp_all

lemma simple_turn_ok_history:
  "simple_turn_ok req \<Longrightarrow>
     length (conversationHistory (snd (simple_step session req))) =
       length (conversationHistory session) + 2"
proof (induction req rule: simple_turn_ok.induct)
  case (1 fs t1 t2 answer)
  obtain message where "get_field (JObj fs) ''message'' = Inr message" by simp
  from chat_simple_ok [OF this, of session t1 t2 answer] show ?case by auto
qed simp_all

lemma server_run_length:
  "list_all server_turn_ok reqs \<Longrightarrow>
     length (conversationHistory (last (server_run session reqs))) =
       length (conversationHistory session) + 2 * length reqs"
proof (induction reqs arbitrary: session)
  case Nil
  then show ?case by simp
next
  case (Cons req reqs)
  have ne: "server_run (snd (server_step session req)) reqs \<noteq> []" by (cases reqs) simp_all
  from Cons server_turn_ok_history [of req session] show ?case by (simp add: ne)
qed

lemma simple_run_length:
  "list_all simple_turn_ok reqs \<Longrightarrow>
     length (conversationHistory (last (simple_run session reqs))) =
       length (conversationHistory session) + 2 * length reqs"
proof (induction reqs arbitrary: session)
  case Nil
  then show ?case by simp
next
  case (Cons req reqs)
  have ne: "simple_run (snd (simple_step session req)) reqs \<noteq> []" by (cases reqs) simp_all
  from Cons simple_turn_ok_history [of req session] show ?case by (simp add: ne)
qed

text \<open>The timestamps a step appends are among its clock readings, in their order.\<close>

lemma sorted_drop_middle:
  "sorted (xs @ ys @ zs) \<Longrightarrow> sorted (xs @ zs)"
  by (auto simp: sorted_append)

lemma sorted_keep_first:
  "sorted (xs @ [a, b] @ zs) \<Longrightarrow> sorted ((xs @ [a]) @ zs)"
  by (auto simp: sorted_append)

lemma server_step_stamps:
  assumes a: "sorted (stamps session @ server_clock req @ rest)"
  shows "sorted (stamps (snd (server_step session req)) @ rest)"
proof (cases req)
  case (ServerChat message t1 t2 c)
  show ?thesis
  proof (cases "\<exists>answer. c = CompletionContent answer")
    case False
    then have "c = CompletionThrew" by (cases c) auto
    with ServerChat a sorted_keep_first [of "stamps session" t1 t2 rest]
    show ?thesis by (simp add: chat_server_threw stamps_def)
  next
    case True
    then obtain a' where c: "c = CompletionContent a'" by blast
    have "stamps (snd (server_step session req)) = stamps session @ [t1, t2]"
    proof (cases "updateSessionStage
            (addMessage (addMessage session ''user'' message t1) ''assistant'' a' t2) a'")
      case (Inl e)
      with ServerChat c show ?thesis
        by (simp add: chat_server_def Let_def stamps_def addMessage_def)
    next
      case (Inr s3)
      from updateSessionStage_history [OF Inr] ServerChat c Inr show ?thesis
        by (simp add: chat_server_def Let_def stamps_def addMessage_def)
    qed
    with ServerChat a show ?thesis by simp
  qed
next
  case (ServerUpload uuid f o1 o2 o3 now)
  with a show ?thesis by (simp add: upload_server_def addArtifact_def Let_def stamps_def)
next
  case ServerReport
  with a show ?thesis by (simp add: report_server_def stamps_def split: sum.splits)
qed

lemma server_run_sorted:
  "sorted (stamps session @ concat (map server_clock reqs)) \<Longrightarrow>
     list_all (\<lambda>s. sorted (stamps s)) (server_run session reqs)"
proof (induction reqs arbitrary: session)
  case Nil
  then show ?case by simp
next
  case (Cons req reqs)
  from Cons.prems have "sorted (stamps session @ server_clock req @ concat (map server_clock reqs))"
    by simp
  from server_step_stamps [OF this] Cons.IH
  have "list_all (\<lambda>s. sorted (stamps s)) (server_run (snd (server_step session req)) reqs)"
    by simp
  moreover from Cons.prems have "sorted (stamps session)" by (simp add: sorted_append)
  ultimately show ?case by simp
qed


lemma simple_step_stamps:
  assumes a: "sorted (stamps session @ simple_clock req @ rest)"
  shows "sorted (stamps (snd (simple_step session req)) @ rest)"
proof (cases req)
  case (SimpleChat body t1 t2 c)
  from a SimpleChat have drop: "sorted (stamps session @ rest)"
    using sorted_drop_middle [of "stamps session" "[t1, t2]" rest] by simp
  from a SimpleChat have first: "sorted ((stamps session @ [t1]) @ rest)"
    using sorted_keep_first [of "stamps session" t1 t2 rest] by simp
  show ?thesis
  proof (cases "\<exists>b message. body = Some b \<and> get_field b ''message'' = Inr message")
    case False
    then have "snd (simple_step session req) = session"
      using SimpleChat by (auto simp: chat_simple_def split: option.splits sum.splits)
    with drop show ?thesis by simp
  next
    case True
    then obtain b message where b: "body = Some b" "get_field b ''message'' = Inr message"
      by blast
    show ?thesis
    proof (cases c)
      case CompletionThrew
      with SimpleChat b first show ?thesis by (simp add: chat_simple_threw stamps_def)
    next
      case (CompletionContent a')
      have "stamps (snd (simple_step session req)) = stamps session @ [t1, t2]"
      proof (cases "updateSessionStage
            (addMessage (addMessage session ''user'' message t1) ''assistant'' a' t2) a'")
        case (Inl e)
        with SimpleChat b CompletionContent show ?thesis
          by (simp add: chat_simple_def Let_def stamps_def addMessage_def
              updateSessionStage_simple_eq)
      next
        case (Inr s3)
        from updateSessionStage_history [OF Inr] SimpleChat b CompletionContent Inr show ?thesis
          by (simp add: chat_simple_def Let_def stamps_def addMessage_def
              updateSessionStage_simple_eq)
      qed
      with SimpleChat a show ?thesis by simp
    qed
  qed
next
  case SimpleReport
  with a show ?thesis by (simp add: report_simple_def stamps_def split: sum.splits)
qed

lemma simple_run_sorted:
  "sorted (stamps session @ concat (map simple_clock reqs)) \<Longrightarrow>
     list_all (\<lambda>s. sorted (stamps s)) (simple_run session reqs)"
proof (induction reqs arbitrary: session)
  case Nil
  then show ?case by simp
next
  case (Cons req reqs)
  from Cons.prems have "sorted (stamps session @ simple_clock req @ concat (map simple_clock reqs))"
    by simp
  from simple_step_stamps [OF this] Cons.IH
  have "list_all (\<lambda>s. sorted (stamps s)) (simple_run (snd (simple_step session req)) reqs)"
    by simp
  moreover from Cons.prems have "sorted (stamps session)" by (simp add: sorted_append)
  ultimately show ?case by simp
qed

section \<open>Facts about the reports\<close>

lemma report_server_session [simp]: "snd (report_server session) = session"
  by (simp add: report_server_def split: sum.splits)

lemma report_simple_session [simp]: "snd (report_simple session) = session"
  by (simp add: report_simple_def split: sum.splits)

lemma report_analysed_session [simp]: "snd (report_analysed rt now1 now2 session) = session"
  by (simp add: report_analysed_def split: sum.splits)

lemma report_text_clock:
  assumes "toLocaleDateString rt now1' = toLocaleDateString rt now1"
    and "session_minutes now2' start = session_minutes now2 start"
  shows "report_text rt now1' now2' start c ob m sel p = report_text rt now1 now2 start c ob m sel p"
  unfolding report_text_def using assms by simp

lemma generateComprehensiveReport_clock:
  assumes "toLocaleDateString rt now1' = toLocaleDateString rt now1"
    and "session_minutes now2' (startTime (progressMetrics session)) =
         session_minutes now2 (startTime (progressMetrics session))"
  shows "generateComprehensiveReport rt now1' now2' session =
         generateComprehensiveReport rt now1 now2 session"
  unfolding generateComprehensiveReport_def
  by (simp add: report_text_clock [OF assms] split: option.splits)

lemma server_handle_report:
  "sessions sid = Some session \<Longrightarrow> snd (server_handle sessions sid ServerReport) = sessions"
  by (simp add: server_handle_def split: prod.splits) (metis fun_upd_triv report_server_session snd_conv)

lemmas report_defs = report_analysed_def generateComprehensiveReport_def report_text_def
  new_SessionState_def initial_stageData_def runtime_1970_def concat_err_def or_default_def
  record_get_def if_err_def nonempty_def map_join_def session_minutes_def show_int_def
  nl_def en_dash_def bullet_def

lemma fresh_minutes:
  "show_int (session_minutes 0 0) = ''0''" "show_int (session_minutes 60000 0) = ''1''"
  by (simp_all add: session_minutes_def show_int_def)

section \<open>The claims of the specification\<close>

text \<open>
  C1.  The keyword policy decides by the table of trigger phrases.  On a text answer
  \<open>updateSessionStage\<close> returns the session with its stage set as follows, where \<open>low\<close> is
  the answer in lower case and \<open>sublist t low\<close> says that \<open>t\<close> occurs in \<open>low\<close>:
  from ContextDiscovery to ObjectiveDefinition iff \<open>low\<close> contains "yes, that's right" or
  "correct"; from ObjectiveDefinition to MethodIdeation iff it contains "root cause" or
  "problem statement"; from MethodIdeation to MethodSelection iff it contains "method" and
  one of "1.", "2.", "3."; from MethodSelection to ImplementationPlan iff it contains
  "implementation plan"; from ImplementationPlan to Complete iff it contains both
  "performance measures" and "learning questions"; in every other case the stage is
  unchanged.  The function of \<open>simple-api.js\<close> computes the same as the one of the Express
  server.  In ContextDiscovery the answer "Yes, that's right, this matches my situation."
  gives ObjectiveDefinition and "Let's explore options." leaves ContextDiscovery.
\<close>

theorem keyword_trigger_table:
  fixes session :: "'a SessionBase_scheme"
  shows
  "updateSessionStage session (JStr answer) =
     Inr (session\<lparr> stage :=
       (let low = toLowerCase answer in
        if stage session = CONTEXT_DISCOVERY \<and>
             (sublist ''yes, that's right'' low \<or> sublist ''correct'' low)
        then OBJECTIVE_DEFINITION
        else if stage session = OBJECTIVE_DEFINITION \<and>
             (sublist ''root cause'' low \<or> sublist ''problem statement'' low)
        then METHOD_IDEATION
        else if stage session = METHOD_IDEATION \<and> sublist ''method'' low \<and>
             (sublist ''1.'' low \<or> sublist ''2.'' low \<or> sublist ''3.'' low)
        then METHOD_SELECTION
        else if stage session = METHOD_SELECTION \<and> sublist ''implementation plan'' low
        then IMPLEMENTATION_PLAN
        else if stage session = IMPLEMENTATION_PLAN \<and> sublist ''performance measures'' low
             \<and> sublist ''learning questions'' low
        then COMPLETE
        else stage session) \<rparr>)
   \<and> updateSessionStage_simple session (JStr answer) = updateSessionStage session (JStr answer)
   \<and> updateSessionStage (session\<lparr> stage := CONTEXT_DISCOVERY \<rparr>)
         (JStr ''Yes, that's right, this matches my situation.'') =
       Inr (session\<lparr> stage := OBJECTIVE_DEFINITION \<rparr>)
   \<and> updateSessionStage (session\<lparr> stage := CONTEXT_DISCOVERY \<rparr>)
         (JStr ''Let's explore options.'') =
       Inr (session\<lparr> stage := CONTEXT_DISCOVERY \<rparr>)"
  using updateSessionStage_table [of session answer]
    updateSessionStage_simple_eq [of session "JStr answer"]
    example_yes [of session] example_explore [of session]
  by (intro conjI)

theorem keyword_trigger_table_witness:
  "updateSessionStage ((new_ServerSessionState ''s1'')\<lparr> stage := METHOD_SELECTION \<rparr>)
     (JStr ''Here is your Implementation Plan.'') =
   Inr ((new_ServerSessionState ''s1'')\<lparr> stage := IMPLEMENTATION_PLAN \<rparr>)"
proof -
  have low: "toLowerCase ''Here is your Implementation Plan.'' =
      ''here is your implementation plan.''"
    by (simp add: toLowerCase_def lower_char_def lower_table_def)
  have sub: "sublist ''implementation plan'' ''here is your implementation plan.''"
    by code_simp
  note table = conjunct1 [OF keyword_trigger_table
      [of "(new_ServerSessionState ''s1'')\<lparr> stage := METHOD_SELECTION \<rparr>"
          "''Here is your Implementation Plan.''"]]
  show ?thesis
    unfolding table by (simp add: low sub stage_defs Let_def)
qed

text \<open>
  C8.  The keyword policy changes at most the stage: when \<open>updateSessionStage\<close> returns,
  the session it returns is the session it was given with the \<open>stage\<close> field set, so the
  identifier, the conversation history, the context with its facts and artifacts, the
  objective, the methods, the chosen method, the implementation plan, the performance
  measures, the learning questions and the uploaded files are as before.  (When it throws,
  on an answer that is no string, nothing has been assigned.)  The same holds for the
  function of \<open>simple-api.js\<close>.
\<close>

theorem keyword_policy_frame:
  fixes session session' :: ServerSessionState and simple simple' :: SimpleSessionState
  shows
  "(updateSessionStage session response = Inr session' \<longrightarrow>
      session' = session\<lparr> stage := stage session' \<rparr>
      \<and> sessionId session' = sessionId session
      \<and> conversationHistory session' = conversationHistory session
      \<and> session_context session' = session_context session
      \<and> objective session' = objective session
      \<and> methods session' = methods session
      \<and> chosenMethod session' = chosenMethod session
      \<and> implementationPlan session' = implementationPlan session
      \<and> performanceMeasures session' = performanceMeasures session
      \<and> learningQuestions session' = learningQuestions session
      \<and> uploadedFiles session' = uploadedFiles session)
   \<and> (updateSessionStage_simple simple response = Inr simple' \<longrightarrow>
      simple' = simple\<lparr> stage := stage simple' \<rparr>
      \<and> sessionId simple' = sessionId simple
      \<and> conversationHistory simple' = conversationHistory simple
      \<and> session_context simple' = session_context simple
      \<and> objective simple' = objective simple
      \<and> methods simple' = methods simple
      \<and> chosenMethod simple' = chosenMethod simple
      \<and> implementationPlan simple' = implementationPlan simple
      \<and> performanceMeasures simple' = performanceMeasures simple
      \<and> learningQuestions simple' = learningQuestions simple)"
proof (intro conjI impI)
  assume a: "updateSessionStage session response = Inr session'"
  note e = updateSessionStage_frame [OF a]
  show "session' = session\<lparr> stage := stage session' \<rparr>" by (rule e)
  show "sessionId session' = sessionId session" by (subst e) simp
  show "conversationHistory session' = conversationHistory session" by (subst e) simp
  show "session_context session' = session_context session" by (subst e) simp
  show "objective session' = objective session" by (subst e) simp
  show "methods session' = methods session" by (subst e) simp
  show "chosenMethod session' = chosenMethod session" by (subst e) simp
  show "implementationPlan session' = implementationPlan session" by (subst e) simp
  show "performanceMeasures session' = performanceMeasures session" by (subst e) simp
  show "learningQuestions session' = learningQuestions session" by (subst e) simp
  show "uploadedFiles session' = uploadedFiles session" by (subst e) simp
next
  assume "updateSessionStage_simple simple response = Inr simple'"
  then have a: "updateSessionStage simple response = Inr simple'"
    by (simp add: updateSessionStage_simple_eq)
  note e = updateSessionStage_frame [OF a]
  show "simple' = simple\<lparr> stage := stage simple' \<rparr>" by (rule e)
  show "sessionId simple' = sessionId simple" by (subst e) simp
  show "conversationHistory simple' = conversationHistory simple" by (subst e) simp
  show "session_context simple' = session_context simple" by (subst e) simp
  show "objective simple' = objective simple" by (subst e) simp
  show "methods simple' = methods simple" by (subst e) simp
  show "chosenMethod simple' = chosenMethod simple" by (subst e) simp
  show "implementationPlan simple' = implementationPlan simple" by (subst e) simp
  show "performanceMeasures simple' = performanceMeasures simple" by (subst e) simp
  show "learningQuestions simple' = learningQuestions simple" by (subst e) simp
qed

theorem keyword_policy_frame_witness:
  "updateSessionStage
     ((new_ServerSessionState ''s1'')\<lparr> conversationHistory :=
        [\<lparr> role = ''user'', content = JStr ''hello'', timestamp = 1 \<rparr>] \<rparr>)
     (JStr ''That is correct.'') =
   Inr ((new_ServerSessionState ''s1'')\<lparr> conversationHistory :=
        [\<lparr> role = ''user'', content = JStr ''hello'', timestamp = 1 \<rparr>],
        stage := OBJECTIVE_DEFINITION \<rparr>)
   \<and> conversationHistory
        ((new_ServerSessionState ''s1'')\<lparr> conversationHistory :=
           [\<lparr> role = ''user'', content = JStr ''hello'', timestamp = 1 \<rparr>],
           stage := OBJECTIVE_DEFINITION \<rparr>) =
       conversationHistory
        ((new_ServerSessionState ''s1'')\<lparr> conversationHistory :=
           [\<lparr> role = ''user'', content = JStr ''hello'', timestamp = 1 \<rparr>] \<rparr>)
   \<and> updateSessionStage_simple (new_SimpleSessionState ''s2'') (JStr ''That is correct.'') =
       Inr ((new_SimpleSessionState ''s2'')\<lparr> stage := OBJECTIVE_DEFINITION \<rparr>)
   \<and> session_context ((new_SimpleSessionState ''s2'')\<lparr> stage := OBJECTIVE_DEFINITION \<rparr>) =
       session_context (new_SimpleSessionState ''s2'')"
proof -
  have low: "toLowerCase ''That is correct.'' = ''that is correct.''"
    by (simp add: toLowerCase_def lower_char_def lower_table_def)
  have sub: "sublist ''correct'' ''that is correct.''"
    by code_simp
  have run: "updateSessionStage
     ((new_ServerSessionState ''s1'')\<lparr> conversationHistory :=
        [\<lparr> role = ''user'', content = JStr ''hello'', timestamp = 1 \<rparr>] \<rparr>)
     (JStr ''That is correct.'') =
   Inr ((new_ServerSessionState ''s1'')\<lparr> conversationHistory :=
        [\<lparr> role = ''user'', content = JStr ''hello'', timestamp = 1 \<rparr>],
        stage := OBJECTIVE_DEFINITION \<rparr>)"
    by (simp add: updateSessionStage_table low sub Let_def new_ServerSessionState_def)
  have run_simple: "updateSessionStage_simple (new_SimpleSessionState ''s2'') (JStr ''That is correct.'') =
       Inr ((new_SimpleSessionState ''s2'')\<lparr> stage := OBJECTIVE_DEFINITION \<rparr>)"
    by (simp add: updateSessionStage_simple_eq updateSessionStage_table low sub Let_def
        new_SimpleSessionState_def)
  from keyword_policy_frame [THEN conjunct1, rule_format, OF run]
    keyword_policy_frame [THEN conjunct2, rule_format, OF run_simple]
  show ?thesis using run run_simple by blast
qed



text \<open>
  C9.  Complete is terminal and advancing past it is ignored without an error.  A session
  in Complete is returned as it is by the keyword policy of both keyword servers, for every
  text answer.  Under the assisted policy, for every outcome of the analysis, the call
  returns a value (no exception), the stage is still Complete and no stage entry time is
  recorded; on an analysis that asks to progress the step that would advance returns the
  analysis itself, not the error object of the \<open>catch\<close> block, and the session as it was.
\<close>

theorem complete_is_terminal:
  fixes session :: "'a SessionBase_scheme" and analysed :: SessionState
  shows
  "(stage session = COMPLETE \<longrightarrow>
      updateSessionStage session (JStr answer) = Inr session
      \<and> updateSessionStage_simple session (JStr answer) = Inr session)
   \<and> (stage analysed = COMPLETE \<longrightarrow>
      (\<exists>result session'.
         analyzeAndProgressStage analysed (JStr userMessage) (JStr assistantResponse) reply now =
           Inr (result, session')
         \<and> stage session' = COMPLETE
         \<and> progressMetrics session' = progressMetrics analysed
         \<and> conversationHistory session' = conversationHistory analysed)
      \<and> (\<forall>p. get_field analysis ''shouldProgress'' = Inr p \<longrightarrow>
             progress analysed analysis now = (analysis, analysed)))"
proof (intro conjI impI allI)
  assume c: "stage session = COMPLETE"
  show k: "updateSessionStage session (JStr answer) = Inr session"
    by (simp add: updateSessionStage_table c stage_distinct Let_def)
  show "updateSessionStage_simple session (JStr answer) = Inr session"
    by (simp add: updateSessionStage_simple_eq k)
next
  assume c: "stage analysed = COMPLETE"
  show "\<exists>result session'.
         analyzeAndProgressStage analysed (JStr userMessage) (JStr assistantResponse) reply now =
           Inr (result, session')
         \<and> stage session' = COMPLETE
         \<and> progressMetrics session' = progressMetrics analysed
         \<and> conversationHistory session' = conversationHistory analysed"
  proof (cases reply)
    case AnalysisThrew
    then show ?thesis using c by (simp add: analyze_failed)
  next
    case AnalysisNotJSON
    then show ?thesis using c by (simp add: analyze_failed)
  next
    case (AnalysisParsed a)
    show ?thesis
    proof (cases "get_field a ''extractedData''")
      case (Inl e)
      then show ?thesis using c AnalysisParsed
        by (simp add: analyzeAndProgressStage_def analysisPrompt_def)
    next
      case (Inr d)
      let ?s1 = "if truthy d then updateStageData analysed (stage analysed) d else analysed"
      have s1: "stage ?s1 = COMPLETE" using c by simp
      have run: "analyzeAndProgressStage analysed (JStr userMessage) (JStr assistantResponse) reply now =
          Inr (progress ?s1 a now)"
        using AnalysisParsed by (simp add: analyze_parsed [OF _ _ Inr])
      have "snd (progress ?s1 a now) = ?s1" by (rule progress_complete [OF s1])
      then have "progress ?s1 a now = (fst (progress ?s1 a now), ?s1)"
        by (metis prod.collapse)
      with run have "analyzeAndProgressStage analysed (JStr userMessage) (JStr assistantResponse) reply now =
          Inr (fst (progress ?s1 a now), ?s1)" by simp
      moreover have "stage ?s1 = COMPLETE \<and> progressMetrics ?s1 = progressMetrics analysed
          \<and> conversationHistory ?s1 = conversationHistory analysed"
        using c by simp
      ultimately show ?thesis by blast
    qed
  qed
next
  fix p
  assume c: "stage analysed = COMPLETE" and p: "get_field analysis ''shouldProgress'' = Inr p"
  show "progress analysed analysis now = (analysis, analysed)"
    by (rule progress_complete_truthy [OF c p])
qed

theorem complete_is_terminal_witness:
  "stage ((new_SessionState ''s1'' 0 0)\<lparr> stage := COMPLETE \<rparr>) = COMPLETE
   \<and> progress ((new_SessionState ''s1'' 0 0)\<lparr> stage := COMPLETE \<rparr>)
        (JObj [(''shouldProgress'', JBool True)]) 7 =
      (JObj [(''shouldProgress'', JBool True)], (new_SessionState ''s1'' 0 0)\<lparr> stage := COMPLETE \<rparr>)
   \<and> updateSessionStage ((new_SessionState ''s1'' 0 0)\<lparr> stage := COMPLETE \<rparr>)
        (JStr ''performance measures and learning questions'') =
      Inr ((new_SessionState ''s1'' 0 0)\<lparr> stage := COMPLETE \<rparr>)"
proof -
  have c: "stage ((new_SessionState ''s1'' 0 0)\<lparr> stage := COMPLETE \<rparr>) = COMPLETE" by simp
  have p: "get_field (JObj [(''shouldProgress'', JBool True)]) ''shouldProgress'' = Inr (JBool True)"
    by simp
  note t = complete_is_terminal [where session = "(new_SessionState ''s1'' 0 0)\<lparr> stage := COMPLETE \<rparr>"
      and analysed = "(new_SessionState ''s1'' 0 0)\<lparr> stage := COMPLETE \<rparr>"
      and analysis = "JObj [(''shouldProgress'', JBool True)]"
      and answer = "''performance measures and learning questions''" and now = 7]
  from t c p show ?thesis by blast
qed



text \<open>
  C4, as amended.  When the analysis call throws, when its content is not JSON, or when
  it parses to \<open>null\<close>, \<open>analyzeAndProgressStage\<close> returns the error object of its
  \<open>catch\<close> block and leaves the session as it was; the chat turn then answers with status
  200, the assistant's message, the unchanged stage and that error object as
  \<open>stageAnalysis\<close>, and the session differs from the one before the turn only by the user
  and the assistant entry appended to the history.  (The code has no other notion of a
  failed analysis: a parsed value that lacks required keys is processed like any other.)
\<close>

theorem analysis_failure_degrades:
  "(reply = AnalysisThrew \<or> reply = AnalysisNotJSON \<or> reply = AnalysisParsed JNull) \<longrightarrow>
     analyzeAndProgressStage session (JStr userMessage) (JStr assistantResponse) reply now =
       Inr (analysis_error, session)
     \<and> (get_field body ''message'' = Inr (JStr userMessage) \<longrightarrow>
          chat_analysed session (Some body) t1 t2 now (CompletionContent (JStr assistantResponse)) reply =
            (AnalysedChatReply (JStr assistantResponse) (stage session) analysis_error
               (stageData session (stage session)) (stageData session) (progressMetrics session),
             session\<lparr> conversationHistory := conversationHistory session @
               [\<lparr> role = ''user'', content = JStr userMessage, timestamp = t1 \<rparr>,
                \<lparr> role = ''assistant'', content = JStr assistantResponse, timestamp = t2 \<rparr>] \<rparr>)
          \<and> statusCode (fst (chat_analysed session (Some body) t1 t2 now
                (CompletionContent (JStr assistantResponse)) reply)) = 200)"
proof (intro impI conjI)
  assume fail: "reply = AnalysisThrew \<or> reply = AnalysisNotJSON \<or> reply = AnalysisParsed JNull"
  show "analyzeAndProgressStage session (JStr userMessage) (JStr assistantResponse) reply now =
       Inr (analysis_error, session)"
    by (simp add: analyze_failed [OF _ _ fail])
  assume msg: "get_field body ''message'' = Inr (JStr userMessage)"
  show "chat_analysed session (Some body) t1 t2 now (CompletionContent (JStr assistantResponse)) reply =
            (AnalysedChatReply (JStr assistantResponse) (stage session) analysis_error
               (stageData session (stage session)) (stageData session) (progressMetrics session),
             session\<lparr> conversationHistory := conversationHistory session @
               [\<lparr> role = ''user'', content = JStr userMessage, timestamp = t1 \<rparr>,
                \<lparr> role = ''assistant'', content = JStr assistantResponse, timestamp = t2 \<rparr>] \<rparr>)"
    by (rule analysis_failure_chat [OF msg fail])
  then show "statusCode (fst (chat_analysed session (Some body) t1 t2 now
                (CompletionContent (JStr assistantResponse)) reply)) = 200"
    by simp
qed

theorem analysis_failure_degrades_witness:
  "analyzeAndProgressStage (new_SessionState ''s1'' 0 0) (JStr ''hello'') (JStr ''Tell me more.'')
     AnalysisNotJSON 3 = Inr (analysis_error, new_SessionState ''s1'' 0 0)
   \<and> statusCode (fst (chat_analysed (new_SessionState ''s1'' 0 0)
        (Some (JObj [(''message'', JStr ''hello'')])) 1 2 3
        (CompletionContent (JStr ''Tell me more.'')) AnalysisNotJSON)) = 200"
proof -
  have msg: "get_field (JObj [(''message'', JStr ''hello'')]) ''message'' = Inr (JStr ''hello'')"
    by simp
  from analysis_failure_degrades [rule_format, of AnalysisNotJSON, OF disjI2 [OF disjI1 [OF refl]]]
  have "analyzeAndProgressStage (new_SessionState ''s1'' 0 0) (JStr ''hello'') (JStr ''Tell me more.'')
     AnalysisNotJSON 3 = Inr (analysis_error, new_SessionState ''s1'' 0 0)
     \<and> (get_field (JObj [(''message'', JStr ''hello'')]) ''message'' = Inr (JStr ''hello'') \<longrightarrow>
          chat_analysed (new_SessionState ''s1'' 0 0) (Some (JObj [(''message'', JStr ''hello'')])) 1 2 3
             (CompletionContent (JStr ''Tell me more.'')) AnalysisNotJSON =
            (AnalysedChatReply (JStr ''Tell me more.'') (stage (new_SessionState ''s1'' 0 0)) analysis_error
               (stageData (new_SessionState ''s1'' 0 0) (stage (new_SessionState ''s1'' 0 0)))
               (stageData (new_SessionState ''s1'' 0 0)) (progressMetrics (new_SessionState ''s1'' 0 0)),
             (new_SessionState ''s1'' 0 0)\<lparr> conversationHistory :=
               conversationHistory (new_SessionState ''s1'' 0 0) @
               [\<lparr> role = ''user'', content = JStr ''hello'', timestamp = 1 \<rparr>,
                \<lparr> role = ''assistant'', content = JStr ''Tell me more.'', timestamp = 2 \<rparr>] \<rparr>)
          \<and> statusCode (fst (chat_analysed (new_SessionState ''s1'' 0 0)
                (Some (JObj [(''message'', JStr ''hello'')])) 1 2 3
                (CompletionContent (JStr ''Tell me more.'')) AnalysisNotJSON)) = 200)" .
  with msg show ?thesis by blast
qed

text \<open>
  C4 as stated fails for a schema-violating result: the object
  \<open>{extractedData: {rootProblem: "X"}}\<close>, which lacks \<open>shouldProgress\<close> and the other
  required keys, is merged into the record of the current stage and returned as the
  analysis; the error object is not returned and \<open>stageData\<close> is not as before.
\<close>

theorem schema_violation_is_merged:
  "(case analyzeAndProgressStage (new_SessionState ''s1'' 0 0)
           (JStr ''We lose 20 hours a month.'') (JStr ''Thank you.'')
           (AnalysisParsed (JObj [(''extractedData'', JObj [(''rootProblem'', JStr ''X'')])])) 9 of
      Inl e \<Rightarrow> False
    | Inr (result, session') \<Rightarrow>
        result = JObj [(''extractedData'', JObj [(''rootProblem'', JStr ''X'')])]
        \<and> result \<noteq> analysis_error
        \<and> map_option (\<lambda>rec. rec ''rootProblem'') (stageData session' CONTEXT_DISCOVERY) =
            Some (Some (JStr ''X''))
        \<and> map_option (\<lambda>rec. rec ''rootProblem'')
              (stageData (new_SessionState ''s1'' 0 0) CONTEXT_DISCOVERY) = Some None)"
  by (simp add: analyzeAndProgressStage_def analysisPrompt_def progress_def updateStageData_def
      object_assign_def new_SessionState_def initial_stageData_def analysis_error_def stage_distinct)

text \<open>
  C5, as amended.  A request changes no record but that of the stage current when it
  arrives.  When a request moves the stage away from a stage that has a record, the
  \<open>completed\<close> member of that record is \<open>true\<close> right after the request and in every state
  the session goes through afterwards, whatever requests follow.  (While a stage is
  current, merged data can set and reset its \<open>completed\<close> member.)
\<close>

theorem completed_set_on_advance_and_kept:
  "(k \<noteq> stage session \<longrightarrow> stageData (snd (analysed_step session req)) k = stageData session k)
   \<and> (stage (snd (analysed_step session req)) \<noteq> stage session
        \<and> stageData session (stage session) \<noteq> None \<longrightarrow>
      completed_flag (snd (analysed_step session req)) (stage session) = JBool True
      \<and> list_all (\<lambda>later. completed_flag later (stage session) = JBool True)
           (analysed_run (snd (analysed_step session req)) reqs))"
proof (intro conjI impI)
  assume "k \<noteq> stage session"
  with analysed_step_facts [of session req]
  show "stageData (snd (analysed_step session req)) k = stageData session k" by blast
next
  let ?s' = "snd (analysed_step session req)"
  assume a: "stage ?s' \<noteq> stage session \<and> stageData session (stage session) \<noteq> None"
  with analysed_step_facts [of session req] obtain crit where
    crit: "STAGE_CRITERIA (stage session) = Some crit" "nextStage crit = Some (stage ?s')"
    and flag: "completed_flag ?s' (stage session) = JBool True"
    by blast
  show "completed_flag ?s' (stage session) = JBool True" by (rule flag)
  from criteria_next [OF crit]
  have "is_stage (stage ?s')" "stage_rank (stage session) < stage_rank (stage ?s')" by simp_all
  from completed_persists [OF this flag]
  show "list_all (\<lambda>later. completed_flag later (stage session) = JBool True)
           (analysed_run ?s' reqs)" .
qed

theorem completed_set_on_advance_and_kept_witness:
  "stageData
     (snd (analysed_step (new_SessionState ''s1'' 0 0)
        (AnalysedChat (Some (JObj [(''message'', JStr ''yes'')])) 1 2 3
           (CompletionContent (JStr ''Good.''))
           (AnalysisParsed (JObj [(''shouldProgress'', JBool True)])))))
     OBJECTIVE_DEFINITION = stageData (new_SessionState ''s1'' 0 0) OBJECTIVE_DEFINITION
   \<and> completed_flag
     (snd (analysed_step (new_SessionState ''s1'' 0 0)
        (AnalysedChat (Some (JObj [(''message'', JStr ''yes'')])) 1 2 3
           (CompletionContent (JStr ''Good.''))
           (AnalysisParsed (JObj [(''shouldProgress'', JBool True)])))))
     CONTEXT_DISCOVERY = JBool True
   \<and> list_all (\<lambda>later. completed_flag later CONTEXT_DISCOVERY = JBool True)
       (analysed_run
          (snd (analysed_step (new_SessionState ''s1'' 0 0)
             (AnalysedChat (Some (JObj [(''message'', JStr ''yes'')])) 1 2 3
                (CompletionContent (JStr ''Good.''))
                (AnalysisParsed (JObj [(''shouldProgress'', JBool True)])))))
          [ AnalysedChat (Some (JObj [(''message'', JStr ''no'')])) 4 5 6
              (CompletionContent (JStr ''Fine.''))
              (AnalysisParsed (JObj [(''extractedData'', JObj [(''completed'', JBool False)])])) ])"
proof -
  let ?s0 = "new_SessionState ''s1'' 0 0"
  let ?req = "AnalysedChat (Some (JObj [(''message'', JStr ''yes'')])) 1 2 3
           (CompletionContent (JStr ''Good.''))
           (AnalysisParsed (JObj [(''shouldProgress'', JBool True)]))"
  have st0: "stage ?s0 = CONTEXT_DISCOVERY" by (simp add: new_SessionState_def)
  have "stage (snd (analysed_step ?s0 ?req)) = OBJECTIVE_DEFINITION"
    by (simp add: run_defs stage_distinct)
  then have h: "stage (snd (analysed_step ?s0 ?req)) \<noteq> stage ?s0
      \<and> stageData ?s0 (stage ?s0) \<noteq> None"
    by (simp add: st0 stage_distinct new_SessionState_def initial_stageData_def)
  have k: "OBJECTIVE_DEFINITION \<noteq> stage ?s0" by (simp add: st0 stage_distinct)
  have a: "stageData (snd (analysed_step ?s0 ?req)) OBJECTIVE_DEFINITION =
      stageData ?s0 OBJECTIVE_DEFINITION"
    by (rule completed_set_on_advance_and_kept [THEN conjunct1, rule_format, OF k])
  from completed_set_on_advance_and_kept [THEN conjunct2, rule_format, OF h]
  have b: "completed_flag (snd (analysed_step ?s0 ?req)) CONTEXT_DISCOVERY = JBool True
   \<and> list_all (\<lambda>later. completed_flag later CONTEXT_DISCOVERY = JBool True)
       (analysed_run (snd (analysed_step ?s0 ?req))
          [ AnalysedChat (Some (JObj [(''message'', JStr ''no'')])) 4 5 6
              (CompletionContent (JStr ''Fine.''))
              (AnalysisParsed (JObj [(''extractedData'', JObj [(''completed'', JBool False)])])) ])"
    unfolding st0 .
  from a b show ?thesis by (intro conjI) simp_all
qed

text \<open>
  C5 as stated fails in both parts while a stage is current: an analysis result whose
  \<open>extractedData\<close> holds \<open>completed: true\<close> sets the flag of ContextDiscovery without
  the stage advancing, and a later result with \<open>completed: false\<close> resets it.
\<close>

theorem completed_overwritten_by_merge:
  "map (\<lambda>s. (stage s, completed_flag s CONTEXT_DISCOVERY))
     (analysed_run (new_SessionState ''s1'' 0 0)
        [ AnalysedChat (Some (JObj [(''message'', JStr ''hello'')])) 1 2 3
            (CompletionContent (JStr ''Tell me more.''))
            (AnalysisParsed (JObj
               [ (''shouldProgress'', JBool False), (''progressReason'', JStr ''more needed''),
                 (''extractedData'', JObj [(''completed'', JBool True)]),
                 (''completionPercentage'', JNum 10), (''missingInformation'', JArr []) ])),
          AnalysedChat (Some (JObj [(''message'', JStr ''we are five people'')])) 4 5 6
            (CompletionContent (JStr ''Who else is involved?''))
            (AnalysisParsed (JObj
               [ (''shouldProgress'', JBool False), (''progressReason'', JStr ''more needed''),
                 (''extractedData'', JObj [(''completed'', JBool False)]),
                 (''completionPercentage'', JNum 20), (''missingInformation'', JArr []) ])) ]) =
   [ (CONTEXT_DISCOVERY, JBool False), (CONTEXT_DISCOVERY, JBool True),
     (CONTEXT_DISCOVERY, JBool False) ]"
  by (simp add: run_defs stage_distinct)

text \<open>
  C2.  For a session created by any of the three servers and every list of requests it
  receives afterwards (chat turns with any outcome of the completion and analysis calls,
  uploads, report requests), the stages the session goes through, the first one included,
  are all among the six stages, their ranks in the fixed order never decrease, and each
  request leaves the stage where it was or moves it to the stage right after it.
\<close>

theorem stage_history_monotone:
  "stage_history_ok (map stage (server_run (new_ServerSessionState sid) reqs))
   \<and> stage_history_ok (map stage (simple_run (new_SimpleSessionState sid) simple_reqs))
   \<and> stage_history_ok (map stage (analysed_run (new_SessionState sid now1 now2) analysed_reqs))"
proof (intro conjI)
  have cd: "is_stage CONTEXT_DISCOVERY" by (simp add: is_stage_cases)
  from run_chain_ok [of server_run server_step stage, OF server_run.simps server_step_stage]
  show "stage_history_ok (map stage (server_run (new_ServerSessionState sid) reqs))"
    by (intro stage_history_okI) (simp_all add: hd_map new_ServerSessionState_def cd)
  from run_chain_ok [of simple_run simple_step stage, OF simple_run.simps simple_step_stage]
  show "stage_history_ok (map stage (simple_run (new_SimpleSessionState sid) simple_reqs))"
    by (intro stage_history_okI) (simp_all add: hd_map new_SimpleSessionState_def cd)
  from run_chain_ok [of analysed_run analysed_step stage, OF analysed_run.simps analysed_step_stage]
  show "stage_history_ok (map stage (analysed_run (new_SessionState sid now1 now2) analysed_reqs))"
    by (intro stage_history_okI) (simp_all add: hd_map new_SessionState_def cd)
qed

theorem stage_history_monotone_witness:
  "stage_history_ok (map stage (server_run (new_ServerSessionState ''s1'')
      [ ServerChat (JStr ''hello'') 1 2 (CompletionContent (JStr ''That is correct.'')),
        ServerReport,
        ServerChat (JStr ''we lose time'') 3 4 CompletionThrew ]))
   \<and> stage_history_ok (map stage (simple_run (new_SimpleSessionState ''s1'')
      [ SimpleChat (Some (JObj [(''message'', JStr ''hello'')])) 1 2
          (CompletionContent (JStr ''That is correct.'')), SimpleReport ]))
   \<and> stage_history_ok (map stage (analysed_run (new_SessionState ''s1'' 0 0)
      [ AnalysedChat (Some (JObj [(''message'', JStr ''hello'')])) 1 2 3
          (CompletionContent (JStr ''Good.''))
          (AnalysisParsed (JObj [(''shouldProgress'', JBool True)])),
        AnalysedReport runtime_1970 4 4 ]))"
  by (rule stage_history_monotone)

text \<open>
  C6.  Chat turns of the keyword servers.  When the completion call returns a text, the
  turn is answered with the normal reply (status 200) and the session it leaves has
  exactly the user entry and then the assistant entry appended, with the clock readings
  \<open>t1\<close> and \<open>t2\<close> as timestamps, and is otherwise what the keyword policy returns.  When
  the call fails, the reply is the failure reply (status 500), the session has only the
  user entry appended and nothing else changed; the Express server answers 200 exactly
  when the call returned a text.  A new session that has answered N such successful
  turns has 2N entries.  When the clock readings are non-decreasing, in the order they are
  taken and after the timestamps already in the history, the timestamps of the history
  are sorted in every state of the session.  The same for \<open>simple-api.js\<close>, on a body
  that has a message; there, and in the analysing server, a failed completion call leaves
  every field but the history as it was (no data merged, no stage change).
\<close>

theorem chat_turn_history:
  fixes session :: ServerSessionState and simple :: SimpleSessionState and analysed :: SessionState
  shows
  "(\<exists>s3. chat_server session message t_user t_assistant (CompletionContent (JStr answer)) =
        (ChatReply (JStr answer) (stage s3) (artifacts (session_context s3)) (objective s3)
           (methods s3), s3)
      \<and> conversationHistory s3 = conversationHistory session @
          [\<lparr> role = ''user'', content = message, timestamp = t_user \<rparr>,
           \<lparr> role = ''assistant'', content = JStr answer, timestamp = t_assistant \<rparr>]
      \<and> updateSessionStage
           (session\<lparr> conversationHistory := conversationHistory session @
              [\<lparr> role = ''user'', content = message, timestamp = t_user \<rparr>,
               \<lparr> role = ''assistant'', content = JStr answer, timestamp = t_assistant \<rparr>] \<rparr>)
           (JStr answer) = Inr s3)
   \<and> chat_server session message t_user t_assistant CompletionThrew =
       (ChatFailure, session\<lparr> conversationHistory := conversationHistory session @
          [\<lparr> role = ''user'', content = message, timestamp = t_user \<rparr>] \<rparr>)
   \<and> statusCode ChatFailure = 500
   \<and> (statusCode (fst (chat_server session message t_user t_assistant c)) = 200 \<longleftrightarrow>
        (\<exists>a. c = CompletionContent (JStr a)))
   \<and> (list_all server_turn_ok reqs \<longrightarrow>
        length (conversationHistory (last (server_run (new_ServerSessionState sid) reqs))) =
          2 * length reqs)
   \<and> (sorted (stamps session @ concat (map server_clock reqs)) \<longrightarrow>
        list_all (\<lambda>s. sorted (stamps s)) (server_run session reqs))
   \<and> (get_field body ''message'' = Inr message \<longrightarrow>
        (\<exists>s3. chat_simple simple (Some body) t_user t_assistant (CompletionContent (JStr answer)) =
           (ChatReply (JStr answer) (stage s3) (artifacts (session_context s3)) (objective s3)
              (methods s3), s3)
         \<and> conversationHistory s3 = conversationHistory simple @
             [\<lparr> role = ''user'', content = message, timestamp = t_user \<rparr>,
              \<lparr> role = ''assistant'', content = JStr answer, timestamp = t_assistant \<rparr>]
         \<and> updateSessionStage_simple
              (simple\<lparr> conversationHistory := conversationHistory simple @
                 [\<lparr> role = ''user'', content = message, timestamp = t_user \<rparr>,
                  \<lparr> role = ''assistant'', content = JStr answer, timestamp = t_assistant \<rparr>] \<rparr>)
              (JStr answer) = Inr s3)
        \<and> chat_simple simple (Some body) t_user t_assistant CompletionThrew =
            (InternalError, simple\<lparr> conversationHistory := conversationHistory simple @
               [\<lparr> role = ''user'', content = message, timestamp = t_user \<rparr>] \<rparr>)
        \<and> chat_analysed analysed (Some body) t_user t_assistant t_analysis CompletionThrew reply =
            (InternalError, analysed\<lparr> conversationHistory := conversationHistory analysed @
               [\<lparr> role = ''user'', content = message, timestamp = t_user \<rparr>] \<rparr>))
   \<and> statusCode InternalError = 500
   \<and> (list_all simple_turn_ok simple_reqs \<longrightarrow>
        length (conversationHistory (last (simple_run (new_SimpleSessionState sid) simple_reqs))) =
          2 * length simple_reqs)
   \<and> (sorted (stamps simple @ concat (map simple_clock simple_reqs)) \<longrightarrow>
        list_all (\<lambda>s. sorted (stamps s)) (simple_run simple simple_reqs))"
proof (intro conjI impI)
  show "\<exists>s3. chat_server session message t_user t_assistant (CompletionContent (JStr answer)) =
        (ChatReply (JStr answer) (stage s3) (artifacts (session_context s3)) (objective s3)
           (methods s3), s3)
      \<and> conversationHistory s3 = conversationHistory session @
          [\<lparr> role = ''user'', content = message, timestamp = t_user \<rparr>,
           \<lparr> role = ''assistant'', content = JStr answer, timestamp = t_assistant \<rparr>]
      \<and> updateSessionStage
           (session\<lparr> conversationHistory := conversationHistory session @
              [\<lparr> role = ''user'', content = message, timestamp = t_user \<rparr>,
               \<lparr> role = ''assistant'', content = JStr answer, timestamp = t_assistant \<rparr>] \<rparr>)
           (JStr answer) = Inr s3"
    by (rule chat_server_ok)
  show "chat_server session message t_user t_assistant CompletionThrew =
       (ChatFailure, session\<lparr> conversationHistory := conversationHistory session @
          [\<lparr> role = ''user'', content = message, timestamp = t_user \<rparr>] \<rparr>)"
    by (rule chat_server_threw)
  show "statusCode ChatFailure = 500" by simp
  show "statusCode (fst (chat_server session message t_user t_assistant c)) = 200 \<longleftrightarrow>
        (\<exists>a. c = CompletionContent (JStr a))"
    by (rule chat_server_status)
  show "statusCode InternalError = 500" by simp
next
  assume "list_all server_turn_ok reqs"
  from server_run_length [OF this, of "new_ServerSessionState sid"]
  show "length (conversationHistory (last (server_run (new_ServerSessionState sid) reqs))) =
          2 * length reqs"
    by (simp add: new_ServerSessionState_def)
next
  assume "sorted (stamps session @ concat (map server_clock reqs))"
  then show "list_all (\<lambda>s. sorted (stamps s)) (server_run session reqs)"
    by (rule server_run_sorted)
next
  assume msg: "get_field body ''message'' = Inr message"
  show "\<exists>s3. chat_simple simple (Some body) t_user t_assistant (CompletionContent (JStr answer)) =
           (ChatReply (JStr answer) (stage s3) (artifacts (session_context s3)) (objective s3)
              (methods s3), s3)
         \<and> conversationHistory s3 = conversationHistory simple @
             [\<lparr> role = ''user'', content = message, timestamp = t_user \<rparr>,
              \<lparr> role = ''assistant'', content = JStr answer, timestamp = t_assistant \<rparr>]
         \<and> updateSessionStage_simple
              (simple\<lparr> conversationHistory := conversationHistory simple @
                 [\<lparr> role = ''user'', content = message, timestamp = t_user \<rparr>,
                  \<lparr> role = ''assistant'', content = JStr answer, timestamp = t_assistant \<rparr>] \<rparr>)
              (JStr answer) = Inr s3"
    by (rule chat_simple_ok [OF msg])
  show "chat_simple simple (Some body) t_user t_assistant CompletionThrew =
            (InternalError, simple\<lparr> conversationHistory := conversationHistory simple @
               [\<lparr> role = ''user'', content = message, timestamp = t_user \<rparr>] \<rparr>)"
    by (rule chat_simple_threw [OF msg])
  show "chat_analysed analysed (Some body) t_user t_assistant t_analysis CompletionThrew reply =
            (InternalError, analysed\<lparr> conversationHistory := conversationHistory analysed @
               [\<lparr> role = ''user'', content = message, timestamp = t_user \<rparr>] \<rparr>)"
    by (rule chat_analysed_threw [OF msg])
next
  assume "list_all simple_turn_ok simple_reqs"
  from simple_run_length [OF this, of "new_SimpleSessionState sid"]
  show "length (conversationHistory (last (simple_run (new_SimpleSessionState sid) simple_reqs))) =
          2 * length simple_reqs"
    by (simp add: new_SimpleSessionState_def)
next
  assume "sorted (stamps simple @ concat (map simple_clock simple_reqs))"
  then show "list_all (\<lambda>s. sorted (stamps s)) (simple_run simple simple_reqs)"
    by (rule simple_run_sorted)
qed

theorem chat_turn_history_witness:
  "length (conversationHistory (last (server_run (new_ServerSessionState ''s1'')
       [ ServerChat (JStr ''hello'') 1 2 (CompletionContent (JStr ''Tell me more.'')),
         ServerChat (JStr ''we are five'') 3 4 (CompletionContent (JStr ''That is correct.'')) ]))) =
     2 * length
       [ ServerChat (JStr ''hello'') 1 2 (CompletionContent (JStr ''Tell me more.'')),
         ServerChat (JStr ''we are five'') 3 4 (CompletionContent (JStr ''That is correct.'')) ]
   \<and> list_all (\<lambda>s. sorted (stamps s)) (server_run (new_ServerSessionState ''s1'')
       [ ServerChat (JStr ''hello'') 1 2 (CompletionContent (JStr ''Tell me more.'')),
         ServerChat (JStr ''we are five'') 3 4 CompletionThrew ])
   \<and> chat_simple (new_SimpleSessionState ''s2'') (Some (JObj [(''message'', JStr ''hello'')])) 1 2
         CompletionThrew =
       (InternalError, (new_SimpleSessionState ''s2'')\<lparr> conversationHistory :=
          conversationHistory (new_SimpleSessionState ''s2'') @
          [\<lparr> role = ''user'', content = JStr ''hello'', timestamp = 1 \<rparr>] \<rparr>)
   \<and> length (conversationHistory (last (simple_run (new_SimpleSessionState ''s2'')
       [ SimpleChat (Some (JObj [(''message'', JStr ''hello'')])) 1 2
           (CompletionContent (JStr ''Tell me more.'')) ]))) =
     2 * length
       [ SimpleChat (Some (JObj [(''message'', JStr ''hello'')])) 1 2
           (CompletionContent (JStr ''Tell me more.'')) ]
   \<and> list_all (\<lambda>s. sorted (stamps s)) (simple_run (new_SimpleSessionState ''s2'')
       [ SimpleChat (Some (JObj [(''message'', JStr ''hello'')])) 1 2
           (CompletionContent (JStr ''Tell me more.'')) ])"
proof -
  let ?reqs = "[ ServerChat (JStr ''hello'') 1 2 (CompletionContent (JStr ''Tell me more.'')),
         ServerChat (JStr ''we are five'') 3 4 (CompletionContent (JStr ''That is correct.'')) ]"
  let ?reqs' = "[ ServerChat (JStr ''hello'') 1 2 (CompletionContent (JStr ''Tell me more.'')),
         ServerChat (JStr ''we are five'') 3 4 CompletionThrew ]"
  let ?sreqs = "[ SimpleChat (Some (JObj [(''message'', JStr ''hello'')])) 1 2
           (CompletionContent (JStr ''Tell me more.'')) ]"
  have ok: "list_all server_turn_ok ?reqs" by simp
  have clock: "sorted (stamps (new_ServerSessionState ''s1'') @ concat (map server_clock ?reqs'))"
    by (simp add: stamps_def new_ServerSessionState_def)
  have msg: "get_field (JObj [(''message'', JStr ''hello'')]) ''message'' = Inr (JStr ''hello'')"
    by simp
  have sok: "list_all simple_turn_ok ?sreqs" by simp
  have sclock: "sorted (stamps (new_SimpleSessionState ''s2'') @ concat (map simple_clock ?sreqs))"
    by (simp add: stamps_def new_SimpleSessionState_def)
  note t = chat_turn_history [where sid = "''s1''" and reqs = ?reqs]
  note t' = chat_turn_history [where session = "new_ServerSessionState ''s1''" and reqs = ?reqs']
  note u = chat_turn_history [where sid = "''s2''" and simple = "new_SimpleSessionState ''s2''"
      and simple_reqs = ?sreqs and body = "JObj [(''message'', JStr ''hello'')]"
      and message = "JStr ''hello''" and t_user = 1 and t_assistant = 2]
  from t ok have a: "length (conversationHistory (last (server_run (new_ServerSessionState ''s1'') ?reqs))) =
      2 * length ?reqs" by blast
  from t' clock have b: "list_all (\<lambda>s. sorted (stamps s)) (server_run (new_ServerSessionState ''s1'') ?reqs')"
    by blast
  from u msg have c: "chat_simple (new_SimpleSessionState ''s2'') (Some (JObj [(''message'', JStr ''hello'')])) 1 2
         CompletionThrew =
       (InternalError, (new_SimpleSessionState ''s2'')\<lparr> conversationHistory :=
          conversationHistory (new_SimpleSessionState ''s2'') @
          [\<lparr> role = ''user'', content = JStr ''hello'', timestamp = 1 \<rparr>] \<rparr>)"
    by blast
  from u sok have d: "length (conversationHistory (last (simple_run (new_SimpleSessionState ''s2'') ?sreqs))) =
      2 * length ?sreqs" by blast
  from u sclock have e: "list_all (\<lambda>s. sorted (stamps s)) (simple_run (new_SimpleSessionState ''s2'') ?sreqs)"
    by blast
  from a b c d e show ?thesis by (intro conjI)
qed

text \<open>
  C7, as amended.  Generating a report leaves the session as it is, in all three servers
  (and the session table of the Express server), so a second request after the first is
  answered from the same session.  The reports of the keyword servers are functions of the
  session alone: the second answer equals the first.  The report of the analysing server
  also prints the date and the minutes since the session started; its second answer
  equals the first when both readings of the clock give the same date and the same whole
  number of session minutes.
\<close>

theorem report_is_projection:
  fixes session :: ServerSessionState and simple :: SimpleSessionState and analysed :: SessionState
  shows
  "snd (report_server session) = session
   \<and> fst (report_server (snd (report_server session))) = fst (report_server session)
   \<and> (sessions sid = Some session \<longrightarrow> snd (server_handle sessions sid ServerReport) = sessions)
   \<and> snd (report_simple simple) = simple
   \<and> fst (report_simple (snd (report_simple simple))) = fst (report_simple simple)
   \<and> snd (report_analysed rt clock_a clock_b analysed) = analysed
   \<and> (toLocaleDateString rt later_a = toLocaleDateString rt clock_a
        \<and> session_minutes later_b (startTime (progressMetrics analysed)) =
            session_minutes clock_b (startTime (progressMetrics analysed)) \<longrightarrow>
      fst (report_analysed rt later_a later_b (snd (report_analysed rt clock_a clock_b analysed))) =
        fst (report_analysed rt clock_a clock_b analysed))"
proof (intro conjI impI)
  assume "sessions sid = Some session"
  then show "snd (server_handle sessions sid ServerReport) = sessions"
    by (rule server_handle_report)
next
  assume "toLocaleDateString rt later_a = toLocaleDateString rt clock_a
        \<and> session_minutes later_b (startTime (progressMetrics analysed)) =
            session_minutes clock_b (startTime (progressMetrics analysed))"
  then have "generateComprehensiveReport rt later_a later_b analysed =
         generateComprehensiveReport rt clock_a clock_b analysed"
    by (intro generateComprehensiveReport_clock) simp_all
  then have "fst (report_analysed rt later_a later_b analysed) =
        fst (report_analysed rt clock_a clock_b analysed)"
    by (simp add: report_analysed_def)
  then show "fst (report_analysed rt later_a later_b (snd (report_analysed rt clock_a clock_b analysed))) =
        fst (report_analysed rt clock_a clock_b analysed)"
    by simp
qed simp_all

theorem report_is_projection_witness:
  "snd (server_handle [''s1'' \<mapsto> new_ServerSessionState ''s1''] ''s1'' ServerReport) =
     [''s1'' \<mapsto> new_ServerSessionState ''s1'']
   \<and> fst (report_analysed runtime_1970 1000 1000
          (snd (report_analysed runtime_1970 0 0 (new_SessionState ''s1'' 0 0)))) =
       fst (report_analysed runtime_1970 0 0 (new_SessionState ''s1'' 0 0))"
proof -
  have h1: "[''s1'' \<mapsto> new_ServerSessionState ''s1''] ''s1'' = Some (new_ServerSessionState ''s1'')"
    by simp
  have h2: "toLocaleDateString runtime_1970 1000 = toLocaleDateString runtime_1970 0
      \<and> session_minutes 1000 (startTime (progressMetrics (new_SessionState ''s1'' 0 0))) =
          session_minutes 0 (startTime (progressMetrics (new_SessionState ''s1'' 0 0)))"
    by (simp add: runtime_1970_def session_minutes_def new_SessionState_def)
  note t = report_is_projection [where sessions = "[''s1'' \<mapsto> new_ServerSessionState ''s1'']"
      and sid = "''s1''" and session = "new_ServerSessionState ''s1''" and rt = runtime_1970
      and clock_a = 0 and clock_b = 0 and later_a = 1000 and later_b = 1000
      and analysed = "new_SessionState ''s1'' 0 0"]
  from t h1 h2 show ?thesis by blast
qed

text \<open>
  C7 as stated fails for \<open>generateComprehensiveReport\<close>: two reports of the same unchanged
  session, requested one minute apart, differ (\<open>0 minutes\<close> and \<open>1 minutes\<close>).
\<close>

theorem report_depends_on_clock:
  "fst (report_analysed runtime_1970 60000 60000
          (snd (report_analysed runtime_1970 0 0 (new_SessionState ''s1'' 0 0)))) \<noteq>
   fst (report_analysed runtime_1970 0 0 (new_SessionState ''s1'' 0 0))"
  by (simp add: report_defs stage_distinct)

end
